theory Spec2Isabelle
  imports
    Main
    "HOL-Library.Char_ord"
    "HOL-Library.List_Lexorder"
    "HOL-Library.Option_ord"
    "HOL-Library.Product_Lexorder"
    "HOL-Library.Multiset"
begin

section \<open>Shared conventions\<close>

text \<open>
  Python \<open>str\<close> values are modelled as \<^typ>\<open>string\<close>, one \<^typ>\<open>char\<close> per code point
  (code points below 256), except for the value of the runtime field, which is a list of
  code points without bound, since what the code does with it depends on the Unicode
  digits.  Python compares strings lexicographically by code point; this is the order
  that \<open>HOL-Library.List_Lexorder\<close> over \<open>HOL-Library.Char_ord\<close> puts on \<^typ>\<open>string\<close>.
  \<open>Optional[int]\<close> is \<^typ>\<open>int option\<close>.

  A rule body awaits answers of the engine (\<open>await Get(...)\<close>).  The engine is not part of
  the modelled sources, so each awaited answer is an input of the model: either the value
  or the exception the request raised.
\<close>

datatype error =
    InvalidFieldException
  | AttributeError
  | ValueError
  | EngineError string

section \<open>\<open>pants/core/goals/test.py\<close>\<close>

subsection \<open>Data model\<close>

record Address =
  spec_path :: string
  spec :: string

record Digest =
  fingerprint :: string
  serialized_bytes_length :: nat

text \<open>\<open>CoverageData\<close> is an abstract base class without fields.\<close>

typedecl CoverageData

datatype ShowOutput = ALL | FAILED | NONE

datatype InteractiveProcess = InteractiveProcess "string list"

record TestResult =
  exit_code :: "int option"
  stdout :: string
  stderr :: string
  address :: Address
  coverage_data :: "CoverageData option"
  xml_results :: "Digest option"

record EnrichedTestResult =
  exit_code :: "int option"
  stdout :: string
  stderr :: string
  address :: Address
  output_setting :: ShowOutput
  coverage_data :: "CoverageData option"
  xml_results :: "Digest option"

record TestDebugRequest =
  process :: "InteractiveProcess option"

record TestSubsystem =
  debug :: bool
  force :: bool
  output' :: ShowOutput
  use_coverage :: bool
  open_coverage :: bool

text \<open>
  The goal's return value \<open>Test(exit_code)\<close>.  The summary loop assigns
  \<open>cast(int, result.exit_code)\<close>, which is a no-op at run time, so the value carried is an
  \<open>Optional[int]\<close>.
\<close>

datatype Test = Test "int option"

fun Test_exit_code :: "Test \<Rightarrow> int option" where
  "Test_exit_code (Test c) = c"

subsection \<open>\<open>TestResult.skip\<close>, \<open>EnrichedTestResult.skipped\<close>, \<open>enrich_test_result\<close>\<close>

definition skip :: "Address \<Rightarrow> TestResult" where
  "skip a =
     \<lparr>TestResult.exit_code = None, TestResult.stdout = '''', TestResult.stderr = '''',
      TestResult.address = a, TestResult.coverage_data = None,
      TestResult.xml_results = None\<rparr>"

text \<open>
  \<open>not s\<close> on a string is \<open>s == ""\<close>; \<open>not x\<close> on an optional object without
  \<open>__bool__\<close>/\<open>__len__\<close> is \<open>x is None\<close>.
\<close>

definition skipped :: "EnrichedTestResult \<Rightarrow> bool" where
  "skipped r \<longleftrightarrow>
     exit_code r = None \<and> stdout r = [] \<and> stderr r = [] \<and>
     coverage_data r = None \<and> xml_results r = None"

definition enrich_test_result :: "TestResult \<Rightarrow> TestSubsystem \<Rightarrow> EnrichedTestResult" where
  "enrich_test_result test_result test_subsystem =
     \<lparr>exit_code = TestResult.exit_code test_result,
      stdout = TestResult.stdout test_result,
      stderr = TestResult.stderr test_result,
      address = TestResult.address test_result,
      output_setting = output' test_subsystem,
      coverage_data = TestResult.coverage_data test_result,
      xml_results = TestResult.xml_results test_result\<rparr>"

subsection \<open>\<open>EnrichedTestResult.__lt__\<close> and \<open>sorted\<close>\<close>

text \<open>The \<open>isinstance\<close> test always succeeds here: both arguments are results.\<close>

definition EnrichedTestResult_lt :: "EnrichedTestResult \<Rightarrow> EnrichedTestResult \<Rightarrow> bool" where
  "EnrichedTestResult_lt self other =
     (if exit_code self = exit_code other then spec (address self) < spec (address other)
      else case exit_code self of
        None \<Rightarrow> True
      | Some c \<Rightarrow> (case exit_code other of None \<Rightarrow> False | Some d \<Rightarrow> c < d))"

text \<open>
  Python's built-in \<open>sorted\<close> is a stable sort that only calls \<open>__lt__\<close>.  It is modelled
  as a stable insertion sort: an element is placed behind the elements that are smaller
  than it and in front of everything else, so elements that compare equal keep their
  order.
\<close>

fun insert_lt :: "('a \<Rightarrow> 'a \<Rightarrow> bool) \<Rightarrow> 'a \<Rightarrow> 'a list \<Rightarrow> 'a list" where
  "insert_lt lt x [] = [x]"
| "insert_lt lt x (y # ys) = (if lt y x then y # insert_lt lt x ys else x # y # ys)"

fun sorted_py :: "('a \<Rightarrow> 'a \<Rightarrow> bool) \<Rightarrow> 'a list \<Rightarrow> 'a list" where
  "sorted_py lt [] = []"
| "sorted_py lt (x # xs) = insert_lt lt x (sorted_py lt xs)"

subsection \<open>\<open>run_tests\<close>\<close>

text \<open>
  What the rule does to the outside: lines printed with \<open>console.print_stderr\<close>, processes
  handed to \<open>interactive_runner.run\<close>, digests written with \<open>workspace.write_digest\<close>.
  A summary line \<open>f"{sigil} {result.address} {status}."\<close> is kept as its three parts.
\<close>

datatype sigil = GreenCheck | RedCross

datatype console_line = Blank | Summary sigil Address string

record World =
  console_stderr :: "console_line list"
  interactive_runs :: "InteractiveProcess list"
  workspace_writes :: "Digest list"

text \<open>
  The engine's answers to the requests of \<open>run_tests\<close>:
  \<^item> \<open>get_debug_requests\<close>: the debug requests of lines 356-365 (the valid field sets,
    asked for with \<open>error_if_no_valid_targets=True\<close>, then one request per field set);
  \<^item> \<open>get_results\<close>: the results of lines 375-389 (valid field sets, those with sources,
    one \<open>EnrichedTestResult\<close> per field set, in request order);
  \<^item> \<open>merge_digests\<close>: \<open>Get(Digest, MergeDigests(...))\<close>;
  \<^item> \<open>interactive_run\<close>: the exit code of \<open>interactive_runner.run(process)\<close>;
  \<^item> \<open>report_coverage\<close>: lines 413-443, which build the coverage collections, request and
    materialize the reports and may open them; it is given the coverage data and
    \<open>open_coverage\<close>, changes the world and may raise.
\<close>

record Engine =
  get_debug_requests :: "error + TestDebugRequest list"
  get_results :: "error + EnrichedTestResult list"
  merge_digests :: "Digest list \<Rightarrow> error + Digest"
  interactive_run :: "InteractiveProcess \<Rightarrow> int"
  report_coverage :: "CoverageData list \<Rightarrow> bool \<Rightarrow> World \<Rightarrow> error option \<times> World"

text \<open>The loop of lines 366-372 over the debug requests.\<close>

fun debug_loop ::
  "(InteractiveProcess \<Rightarrow> int) \<Rightarrow> TestDebugRequest list \<Rightarrow> int \<times> World \<Rightarrow> int \<times> World" where
  "debug_loop run [] (code, w) = (code, w)"
| "debug_loop run (debug_request # rest) (code, w) =
     (case process debug_request of
        None \<Rightarrow> debug_loop run rest (code, w)
      | Some p \<Rightarrow>
          debug_loop run rest
            (if run p \<noteq> 0 then run p else code,
             w\<lparr>interactive_runs := interactive_runs w @ [p]\<rparr>))"

text \<open>The loop of lines 395-405 over the sorted results.\<close>

fun summary_loop ::
  "EnrichedTestResult list \<Rightarrow> int option \<times> World \<Rightarrow> int option \<times> World" where
  "summary_loop [] (code, w) = (code, w)"
| "summary_loop (r # rest) (code, w) =
     (if skipped r then summary_loop rest (code, w)
      else if exit_code r = Some 0 then
        summary_loop rest
          (code, w\<lparr>console_stderr := console_stderr w @ [Summary GreenCheck (address r) ''succeeded'']\<rparr>)
      else
        summary_loop rest
          (exit_code r,
           w\<lparr>console_stderr := console_stderr w @ [Summary RedCross (address r) ''failed'']\<rparr>))"

definition run_tests :: "Engine \<Rightarrow> TestSubsystem \<Rightarrow> World \<Rightarrow> (error + Test) \<times> World" where
  "run_tests engine test_subsystem w =
     (if debug test_subsystem then
        (case get_debug_requests engine of
           Inl e \<Rightarrow> (Inl e, w)
         | Inr debug_requests \<Rightarrow>
             (let (code, w1) = debug_loop (interactive_run engine) debug_requests (0, w)
              in (Inr (Test (Some code)), w1)))
      else
        (case get_results engine of
           Inl e \<Rightarrow> (Inl e, w)
         | Inr results \<Rightarrow>
             (let w1 = (if results \<noteq> [] then w\<lparr>console_stderr := console_stderr w @ [Blank]\<rparr> else w);
                  (code, w2) = summary_loop (sorted_py EnrichedTestResult_lt results) (Some 0, w1)
              in case merge_digests engine (List.map_filter xml_results results) of
                   Inl e \<Rightarrow> (Inl e, w2)
                 | Inr merged_xml_results \<Rightarrow>
                     (let w3 = w2\<lparr>workspace_writes := workspace_writes w2 @ [merged_xml_results]\<rparr>
                      in if use_coverage test_subsystem then
                           (case report_coverage engine (List.map_filter coverage_data results)
                                   (open_coverage test_subsystem) w3 of
                              (Some e, w4) \<Rightarrow> (Inl e, w4)
                            | (None, w4) \<Rightarrow> (Inr (Test code), w4))
                         else (Inr (Test code), w3)))))"

subsection \<open>Auxiliary notions for the properties of \<open>run_tests\<close>\<close>

text \<open>The sort key that \<open>__lt__\<close> compares: exit code (\<open>None\<close> least), then the address spec.\<close>

definition result_key :: "EnrichedTestResult \<Rightarrow> int option \<times> string" where
  "result_key r = (exit_code r, spec (address r))"

text \<open>The results for which the summary loop takes its \<open>else\<close> branch and assigns \<open>exit_code\<close>.\<close>

definition failing :: "EnrichedTestResult \<Rightarrow> bool" where
  "failing r \<longleftrightarrow> \<not> skipped r \<and> exit_code r \<noteq> Some 0"

text \<open>
  The requests that follow the summary do not raise: the digest merge answers with a digest
  and, when coverage is on, coverage reporting completes.
\<close>

definition requests_succeed :: "Engine \<Rightarrow> TestSubsystem \<Rightarrow> EnrichedTestResult list \<Rightarrow> bool" where
  "requests_succeed engine test_subsystem results \<longleftrightarrow>
     (\<exists>d. merge_digests engine (List.map_filter xml_results results) = Inr d) \<and>
     (use_coverage test_subsystem \<longrightarrow>
        (\<forall>w. fst (report_coverage engine (List.map_filter coverage_data results)
                 (open_coverage test_subsystem) w) = None))"

text \<open>
  The summary ordering in the words of the specification (section 4.5): primary key the
  outcome category in the order skipped, failed, succeeded; secondary key the target
  identifier.
\<close>

definition outcome_category_spec :: "EnrichedTestResult \<Rightarrow> nat" where
  "outcome_category_spec r =
     (if skipped r then 0 else if exit_code r \<noteq> Some 0 then 1 else 2)"

definition summary_order_spec :: "EnrichedTestResult \<Rightarrow> EnrichedTestResult \<Rightarrow> bool" where
  "summary_order_spec a b \<longleftrightarrow>
     outcome_category_spec a < outcome_category_spec b \<or>
     (outcome_category_spec a = outcome_category_spec b \<and>
      spec (address a) < spec (address b))"

text \<open>
  The exit code in the words of the specification (section 4.5): 0 if every non-skipped
  result succeeded, otherwise the first non-zero code in sorted order.
\<close>

definition first_nonzero_exit_code_spec :: "EnrichedTestResult list \<Rightarrow> int option" where
  "first_nonzero_exit_code_spec results =
     (case filter failing (sorted_py EnrichedTestResult_lt results) of
        [] \<Rightarrow> Some 0
      | f # _ \<Rightarrow> exit_code f)"

subsection \<open>Concrete inputs\<close>

definition example_result :: "int option \<Rightarrow> string \<Rightarrow> EnrichedTestResult" where
  "example_result code name =
     \<lparr>exit_code = code, stdout = [], stderr = [], address = \<lparr>spec_path = [], spec = name\<rparr>,
      output_setting = FAILED, coverage_data = None, xml_results = None\<rparr>"

definition example_engine :: "EnrichedTestResult list \<Rightarrow> TestDebugRequest list \<Rightarrow> Engine" where
  "example_engine results debug_requests =
     \<lparr>get_debug_requests = Inr debug_requests,
      get_results = Inr results,
      merge_digests = (\<lambda>ds. Inr \<lparr>fingerprint = ''merged'', serialized_bytes_length = 0\<rparr>),
      interactive_run = (\<lambda>p. case p of InteractiveProcess argv \<Rightarrow> int (length argv)),
      report_coverage = (\<lambda>cs b w. (None, w))\<rparr>"

definition example_subsystem :: "bool \<Rightarrow> TestSubsystem" where
  "example_subsystem d =
     \<lparr>debug = d, force = False, output' = FAILED, use_coverage = True, open_coverage = False\<rparr>"

definition empty_world :: World where
  "empty_world = \<lparr>console_stderr = [], interactive_runs = [], workspace_writes = []\<rparr>"

section \<open>\<open>pants/backend/go/util_rules/sdk.py\<close>\<close>

text \<open>
  Modelled from the spec: \<open>EMPTY_DIGEST\<close> of \<open>pants.engine.fs\<close> is not among the sources;
  section 3 says that an empty snapshot has a well-known \<open>Digest\<close> constant.  It is the
  SHA-256 fingerprint of the empty input, of length 0.
\<close>

definition EMPTY_DIGEST :: Digest where
  "EMPTY_DIGEST =
     \<lparr>fingerprint = ''e3b0c44298fc1c149afbf4c8996fb92427ae41e4649b934ca495991b7852b855'',
      serialized_bytes_length = 0\<rparr>"

record GoSdkProcess =
  command :: "string list"
  description :: string
  env :: "string \<rightharpoonup> string"
  input_digest :: Digest
  working_dir :: "string option"
  output_files :: "string list"
  output_directories :: "string list"
  replace_sandbox_root_in_args :: bool

text \<open>
  The keyword arguments of \<open>GoSdkProcess.__init__\<close>.  \<open>description\<close> is required; for
  the others \<open>None\<close> stands for an argument the caller left out, so that the default of
  the signature applies (for \<open>env\<close> and \<open>working_dir\<close> the default is Python's \<open>None\<close>
  itself).
\<close>

record GoSdkProcess_kwargs =
  kw_description :: string
  kw_env :: "(string \<rightharpoonup> string) option"
  kw_input_digest :: "Digest option"
  kw_working_dir :: "string option"
  kw_output_files :: "string list option"
  kw_output_directories :: "string list option"
  kw_allow_downloads :: "bool option"
  kw_replace_sandbox_root_in_args :: "bool option"

text \<open>\<open>env or {}\<close>: \<open>None\<close> and the empty mapping both give the empty mapping.\<close>

definition env_or_empty :: "(string \<rightharpoonup> string) option \<Rightarrow> (string \<rightharpoonup> string)" where
  "env_or_empty e = (case e of None \<Rightarrow> Map.empty | Some m \<Rightarrow> m)"

definition GoSdkProcess_init :: "string list \<Rightarrow> GoSdkProcess_kwargs \<Rightarrow> GoSdkProcess" where
  "GoSdkProcess_init cmd kw =
     (let allow_downloads = (case kw_allow_downloads kw of None \<Rightarrow> False | Some b \<Rightarrow> b)
      in \<lparr>command = cmd,
          description = kw_description kw,
          env = (if allow_downloads then env_or_empty (kw_env kw)
                 else (env_or_empty (kw_env kw))(''GOPROXY'' \<mapsto> ''off'')),
          input_digest = (case kw_input_digest kw of None \<Rightarrow> EMPTY_DIGEST | Some d \<Rightarrow> d),
          working_dir = kw_working_dir kw,
          output_files = (case kw_output_files kw of None \<Rightarrow> [] | Some fs \<Rightarrow> fs),
          output_directories = (case kw_output_directories kw of None \<Rightarrow> [] | Some ds \<Rightarrow> ds),
          replace_sandbox_root_in_args =
            (case kw_replace_sandbox_root_in_args kw of None \<Rightarrow> False | Some b \<Rightarrow> b)\<rparr>)"

record FileContent =
  path :: string
  content :: string

record GoSdkRunSetup =
  digest :: Digest
  script :: FileContent

definition CHDIR_ENV :: string where
  "CHDIR_ENV = ''__PANTS_CHDIR_TO''"

definition SANDBOX_ROOT_ENV :: string where
  "SANDBOX_ROOT_ENV = ''__PANTS_REPLACE_SANDBOX_ROOT''"

record BashBinary =
  path :: string

record GoRoot =
  path :: string
  version :: string
  goos :: string
  goarch :: string

record GolangSubsystem_EnvironmentAware =
  env_vars_to_pass_to_subprocesses :: "string list"

datatype LogLevel = TRACE | DEBUG | INFO | WARN | ERROR

record Process =
  argv :: "string list"
  env :: "string \<rightharpoonup> string"
  input_digest :: Digest
  description :: string
  output_files :: "string list"
  output_directories :: "string list"
  level :: LogLevel

text \<open>
  Modelled from the spec: the engine's answer to
  \<open>Get(EnvironmentVars, EnvironmentVarsRequest(names))\<close> is not among the sources;
  section 6 says that the environment variables passed through are an explicit
  allow-list, never the full ambient environment.  The answer is the ambient environment
  of the engine restricted to the requested names.
\<close>

definition environment_vars :: "string list \<Rightarrow> (string \<rightharpoonup> string) \<Rightarrow> (string \<rightharpoonup> string)" where
  "environment_vars requested ambient = ambient |` set requested"

text \<open>
  The engine's part in \<open>setup_go_sdk_process\<close>: its answer to \<open>MergeDigests\<close> and the
  ambient environment from which it answers the \<open>EnvironmentVarsRequest\<close>.  The two
  requests are one \<open>MultiGet\<close>; only the merge can raise.
\<close>

record SdkEngine =
  sdk_merge_digests :: "Digest list \<Rightarrow> error + Digest"
  ambient_env :: "string \<rightharpoonup> string"

definition setup_go_sdk_process ::
  "SdkEngine \<Rightarrow> GoSdkProcess \<Rightarrow> GoSdkRunSetup \<Rightarrow> BashBinary \<Rightarrow>
     GolangSubsystem_EnvironmentAware \<Rightarrow> GoRoot \<Rightarrow> error + Process" where
  "setup_go_sdk_process engine request go_sdk_run bash golang_env_aware goroot =
     (case sdk_merge_digests engine [digest go_sdk_run, GoSdkProcess.input_digest request] of
        Inl e \<Rightarrow> Inl e
      | Inr merged \<Rightarrow>
          (let env_vars = environment_vars (env_vars_to_pass_to_subprocesses golang_env_aware)
                            (ambient_env engine);
               maybe_replace_sandbox_root_env =
                 (if replace_sandbox_root_in_args request then [SANDBOX_ROOT_ENV \<mapsto> ''1'']
                  else Map.empty)
           in Inr \<lparr>argv = BashBinary.path bash # FileContent.path (script go_sdk_run) #
                           command request,
                   env = (((env_vars ++ GoSdkProcess.env request)
                            (CHDIR_ENV \<mapsto> (case working_dir request of None \<Rightarrow> [] | Some d \<Rightarrow> d)))
                          ++ maybe_replace_sandbox_root_env)
                           (''__PANTS_GO_SDK_CACHE_KEY'' \<mapsto>
                              version goroot @ ''/'' @ goos goroot @ ''/'' @ goarch goroot),
                   input_digest = merged,
                   description = GoSdkProcess.description request,
                   output_files = GoSdkProcess.output_files request,
                   output_directories = GoSdkProcess.output_directories request,
                   level = DEBUG\<rparr>))"

subsection \<open>Concrete inputs for the Go SDK rules\<close>

definition example_sdk_engine :: "(string \<rightharpoonup> string) \<Rightarrow> SdkEngine" where
  "example_sdk_engine ambient =
     \<lparr>sdk_merge_digests = (\<lambda>ds. case ds of [] \<Rightarrow> Inr EMPTY_DIGEST | d # _ \<Rightarrow> Inr d),
      ambient_env = ambient\<rparr>"

definition example_go_request :: GoSdkProcess where
  "example_go_request =
     GoSdkProcess_init [''tool'', ''compile'', ''-V=full'']
       \<lparr>kw_description = ''Obtain tool ID'', kw_env = Some [''CGO_ENABLED'' \<mapsto> ''0''],
        kw_input_digest = None, kw_working_dir = None, kw_output_files = None,
        kw_output_directories = None, kw_allow_downloads = None,
        kw_replace_sandbox_root_in_args = None\<rparr>"

definition example_go_sdk_run :: GoSdkRunSetup where
  "example_go_sdk_run =
     \<lparr>digest = \<lparr>fingerprint = ''abc'', serialized_bytes_length = 3\<rparr>,
      script = \<lparr>FileContent.path = ''__run_go.sh'', content = ''exec go''\<rparr>\<rparr>"

definition example_goroot :: GoRoot where
  "example_goroot = \<lparr>GoRoot.path = ''/usr/lib/go'', version = ''1.17'', goos = ''linux'', goarch = ''amd64''\<rparr>"

section \<open>\<open>pants/backend/awslambda/python/target_types.py\<close>\<close>

subsection \<open>The runtime field\<close>

text \<open>
  The value of the runtime field is modelled as the list of its code points: the
  pattern's \<open>\d\<close> and \<open>int()\<close> accept every Unicode decimal digit, not only \<open>0\<close> to \<open>9\<close>.
  \<open>code_points\<close> turns a literal of the source into that form.
\<close>

type_synonym unicode = "nat list"

definition code_points :: "string \<Rightarrow> unicode" where
  "code_points s = map of_char s"

text \<open>
  What the code takes from the Python interpreter:
  \<^item> \<open>unicode_decimal\<close>: the table of the Unicode decimal digits with their values
    (\<open>Py_UNICODE_TODECIMAL\<close>), which decides both what \<open>\d\<close> matches and what \<open>int()\<close>
    reads;
  \<^item> \<open>int_max_str_digits\<close>: the limit of \<open>int()\<close> on the number of digits
    (\<open>sys.get_int_max_str_digits()\<close>, 4300 unless configured; 0 for no limit).
\<close>

record Interpreter =
  unicode_decimal :: "nat \<Rightarrow> nat option"
  int_max_str_digits :: nat

definition is_digit :: "Interpreter \<Rightarrow> nat \<Rightarrow> bool" where
  "is_digit py c \<longleftrightarrow> unicode_decimal py c \<noteq> None"

definition digit_value :: "Interpreter \<Rightarrow> nat \<Rightarrow> int" where
  "digit_value py c = (case unicode_decimal py c of None \<Rightarrow> 0 | Some v \<Rightarrow> int v)"

text \<open>
  \<open>re.match(PYTHON_RUNTIME_REGEX, value)\<close> for the pattern
  \<open>python(?P<major>\d)\.(?P<minor>\d+)\<close>: the match is anchored at the start of the value
  only, and the greedy \<open>\d+\<close>, which ends the pattern, takes every digit that follows the
  dot.  The result is the pair of groups \<open>(major, minor)\<close>, or \<open>None\<close>.
\<close>

fun strip_prefix :: "'a list \<Rightarrow> 'a list \<Rightarrow> 'a list option" where
  "strip_prefix [] s = Some s"
| "strip_prefix (p # ps) [] = None"
| "strip_prefix (p # ps) (c # cs) = (if p = c then strip_prefix ps cs else None)"

definition match_python_runtime :: "Interpreter \<Rightarrow> unicode \<Rightarrow> (unicode \<times> unicode) option" where
  "match_python_runtime py v =
     (case strip_prefix (code_points ''python'') v of
        None \<Rightarrow> None
      | Some [] \<Rightarrow> None
      | Some [d] \<Rightarrow> None
      | Some (d # dot # rest) \<Rightarrow>
          if is_digit py d \<and> dot = of_char CHR ''.'' \<and> takeWhile (is_digit py) rest \<noteq> []
          then Some ([d], takeWhile (is_digit py) rest) else None)"

text \<open>
  Python's \<open>int(s)\<close> on a string of decimal digits, the only strings that the groups of
  the pattern hold: it raises \<open>ValueError\<close> when there is a limit and the string has more
  digits than that, and otherwise reads the digits in base 10.  (Signs, underscores and
  surrounding blanks, which \<open>int()\<close> accepts as well, are not modelled.)
\<close>

definition int_of_digits :: "Interpreter \<Rightarrow> unicode \<Rightarrow> error + int" where
  "int_of_digits py s =
     (if s = [] \<or> \<not> list_all (is_digit py) s then Inl ValueError
      else if 0 < int_max_str_digits py \<and> int_max_str_digits py < length s then Inl ValueError
      else Inr (foldl (\<lambda>n c. 10 * n + digit_value py c) 0 s))"

text \<open>
  Modelled from the spec: \<open>StringField.compute_value\<close>, which the field calls through
  \<open>super()\<close>, is defined in \<open>pants.engine.target\<close> and is not among the sources.  For a raw
  value that is a string or \<open>None\<close> it returns the raw value, or the class's \<open>default\<close>
  when the raw value is \<open>None\<close>.
\<close>

definition StringField_compute_value :: "'a option \<Rightarrow> 'a option \<Rightarrow> 'a option" where
  "StringField_compute_value default_value raw_value =
     (case raw_value of None \<Rightarrow> default_value | Some v \<Rightarrow> Some v)"

definition PythonAwsLambdaRuntime_default :: "unicode option" where
  "PythonAwsLambdaRuntime_default = None"

definition PythonAwsLambdaRuntime_compute_value ::
  "Interpreter \<Rightarrow> unicode option \<Rightarrow> Address \<Rightarrow> error + unicode option" where
  "PythonAwsLambdaRuntime_compute_value py raw_value addr =
     (case StringField_compute_value PythonAwsLambdaRuntime_default raw_value of
        None \<Rightarrow> Inr None
      | Some v \<Rightarrow>
          if match_python_runtime py v = None then Inl InvalidFieldException else Inr (Some v))"

text \<open>
  \<open>to_interpreter_version\<close> on a field whose \<open>value\<close> is the argument.  On a value that
  does not match, \<open>mo\<close> is \<open>None\<close> and \<open>mo.group\<close> raises \<open>AttributeError\<close>; the two calls
  of \<open>int()\<close> are evaluated from left to right.
\<close>

definition to_interpreter_version :: "Interpreter \<Rightarrow> unicode option \<Rightarrow> error + (int \<times> int) option" where
  "to_interpreter_version py v =
     (case v of
        None \<Rightarrow> Inr None
      | Some s \<Rightarrow>
          (case match_python_runtime py s of
             None \<Rightarrow> Inl AttributeError
           | Some (major, minor) \<Rightarrow>
               (case int_of_digits py major of
                  Inl e \<Rightarrow> Inl e
                | Inr mj \<Rightarrow>
                    (case int_of_digits py minor of
                       Inl e \<Rightarrow> Inl e
                     | Inr mn \<Rightarrow> Inr (Some (mj, mn))))))"

text \<open>
  The strings the pattern matches, in the words of the regular expression: \<open>python\<close>, one
  digit, a dot, one or more digits, then anything.
\<close>

definition matches_runtime_regex :: "Interpreter \<Rightarrow> unicode \<Rightarrow> bool" where
  "matches_runtime_regex py v \<longleftrightarrow>
     (\<exists>d ds rest. v = code_points ''python'' @ [d] @ code_points ''.'' @ ds @ rest \<and>
        is_digit py d \<and> ds \<noteq> [] \<and> (\<forall>c \<in> set ds. is_digit py c))"

text \<open>The value of a decimal numeral, digit by digit from the right.\<close>

fun decimal_value :: "Interpreter \<Rightarrow> unicode \<Rightarrow> int" where
  "decimal_value py [] = 0"
| "decimal_value py (c # cs) = digit_value py c * 10 ^ length cs + decimal_value py cs"

subsection \<open>Concrete inputs for the runtime field\<close>

text \<open>
  An interpreter with the default limit and a table that holds the digits \<open>0\<close> to \<open>9\<close> and
  the Arabic-Indic digits (code points 1632 to 1641).
\<close>

definition example_interpreter :: Interpreter where
  "example_interpreter =
     \<lparr>unicode_decimal =
        (\<lambda>c. if 48 \<le> c \<and> c \<le> 57 then Some (c - 48)
             else if 1632 \<le> c \<and> c \<le> 1641 then Some (c - 1632)
             else None),
      int_max_str_digits = 4300\<rparr>"

subsection \<open>Python's string and \<open>posixpath\<close> functions\<close>

text \<open>
  The functions of Python's standard library that \<open>resolve_python_aws_handler\<close> calls,
  after \<open>posixpath.py\<close> and \<open>genericpath.py\<close>; \<open>os.path.sep\<close> is \<open>/\<close>.
\<close>

text \<open>\<open>s.partition(sep)\<close> for a one-character separator.\<close>

definition str_partition :: "char \<Rightarrow> string \<Rightarrow> string \<times> string \<times> string" where
  "str_partition sep s =
     (if sep \<in> set s
      then (takeWhile (\<lambda>c. c \<noteq> sep) s, [sep], tl (dropWhile (\<lambda>c. c \<noteq> sep) s))
      else (s, [], []))"

definition startswith :: "string \<Rightarrow> string \<Rightarrow> bool" where
  "startswith s p \<longleftrightarrow> take (length p) s = p"

definition endswith :: "string \<Rightarrow> string \<Rightarrow> bool" where
  "endswith s e \<longleftrightarrow> length e \<le> length s \<and> drop (length s - length e) s = e"

text \<open>\<open>s.split(sep)\<close> for a one-character separator: the result is never empty.\<close>

fun str_split :: "char \<Rightarrow> string \<Rightarrow> string list" where
  "str_split sep [] = [[]]"
| "str_split sep (c # cs) =
     (if c = sep then [] # str_split sep cs
      else (case str_split sep cs of [] \<Rightarrow> [[c]] | w # ws \<Rightarrow> (c # w) # ws))"

text \<open>\<open>sep.join(xs)\<close>.\<close>

fun str_join :: "string \<Rightarrow> string list \<Rightarrow> string" where
  "str_join sep [] = []"
| "str_join sep [x] = x"
| "str_join sep (x # y # ys) = x @ sep @ str_join sep (y # ys)"

text \<open>\<open>s.replace(old, new)\<close> for one-character \<open>old\<close> and \<open>new\<close>.\<close>

definition str_replace :: "char \<Rightarrow> char \<Rightarrow> string \<Rightarrow> string" where
  "str_replace old new s = map (\<lambda>c. if c = old then new else c) s"

text \<open>\<open>s.rfind(c)\<close>: the greatest index of \<open>c\<close> in \<open>s\<close>, or \<open>-1\<close>.\<close>

fun rfind_from :: "char \<Rightarrow> string \<Rightarrow> int \<Rightarrow> int \<Rightarrow> int" where
  "rfind_from c [] i found = found"
| "rfind_from c (x # xs) i found = rfind_from c xs (i + 1) (if x = c then i else found)"

definition rfind :: "char \<Rightarrow> string \<Rightarrow> int" where
  "rfind c s = rfind_from c s 0 (- 1)"

text \<open>\<open>os.path.join(a, b)\<close> with two arguments, and \<open>os.path.join(*parts)\<close>.\<close>

definition posix_join :: "string \<Rightarrow> string \<Rightarrow> string" where
  "posix_join a b =
     (if startswith b ''/'' then b
      else if a = [] \<or> endswith a ''/'' then a @ b
      else a @ ''/'' @ b)"

fun posix_join_all :: "string list \<Rightarrow> string" where
  "posix_join_all [] = []"
| "posix_join_all (a # p) = foldl posix_join a p"

text \<open>The body of the loop of \<open>os.path.normpath\<close> over the components.\<close>

definition normpath_step :: "nat \<Rightarrow> string list \<Rightarrow> string \<Rightarrow> string list" where
  "normpath_step initial_slashes new_comps part =
     (if part = [] \<or> part = ''.'' then new_comps
      else if part \<noteq> ''..'' \<or> (initial_slashes = 0 \<and> new_comps = []) \<or>
              (new_comps \<noteq> [] \<and> last new_comps = ''..'')
      then new_comps @ [part]
      else if new_comps \<noteq> [] then butlast new_comps
      else new_comps)"

definition normpath :: "string \<Rightarrow> string" where
  "normpath pathname =
     (if pathname = [] then ''.''
      else
        let initial_slashes =
              (if startswith pathname ''/''
               then (if startswith pathname ''//'' \<and> \<not> startswith pathname ''///'' then 2 else 1)
               else 0);
            comps = foldl (normpath_step initial_slashes) [] (str_split CHR ''/'' pathname);
            joined = replicate initial_slashes CHR ''/'' @ str_join ''/'' comps
        in if joined = [] then ''.'' else joined)"

text \<open>\<open>os.path.abspath(pathname)\<close>; the first argument is \<open>os.getcwd()\<close>.\<close>

definition abspath :: "string \<Rightarrow> string \<Rightarrow> string" where
  "abspath cwd pathname =
     normpath (if startswith pathname ''/'' then pathname else posix_join cwd pathname)"

text \<open>\<open>os.path.commonprefix\<close> of two lists: their longest common prefix.\<close>

fun commonprefix :: "'a list \<Rightarrow> 'a list \<Rightarrow> 'a list" where
  "commonprefix (x # xs) (y # ys) = (if x = y then x # commonprefix xs ys else [])"
| "commonprefix xs ys = []"

text \<open>\<open>os.path.relpath(pathname, start)\<close>; the first argument is \<open>os.getcwd()\<close>.\<close>

definition relpath :: "string \<Rightarrow> string \<Rightarrow> string \<Rightarrow> error + string" where
  "relpath cwd pathname start =
     (if pathname = [] then Inl ValueError
      else
        let start_list = filter (\<lambda>x. x \<noteq> []) (str_split CHR ''/'' (abspath cwd start));
            path_list = filter (\<lambda>x. x \<noteq> []) (str_split CHR ''/'' (abspath cwd pathname));
            i = length (commonprefix start_list path_list);
            rel_list = replicate (length start_list - i) ''..'' @ drop i path_list
        in if rel_list = [] then Inr ''.'' else Inr (posix_join_all rel_list))"

text \<open>
  \<open>os.path.splitext(p)\<close>.  The loop skips the dots that lead the last component; it
  returns the split at the last dot as soon as it meets another character.
\<close>

function splitext_loop :: "string \<Rightarrow> nat \<Rightarrow> nat \<Rightarrow> (string \<times> string) option" where
  "splitext_loop p filenameIndex dotIndex =
     (if filenameIndex < dotIndex then
        (if take 1 (drop filenameIndex p) \<noteq> ''.'' then Some (take dotIndex p, drop dotIndex p)
         else splitext_loop p (filenameIndex + 1) dotIndex)
      else None)"
  by pat_completeness auto

termination
  by (relation "measure (\<lambda>(p, filenameIndex, dotIndex). dotIndex - filenameIndex)") auto

definition splitext :: "string \<Rightarrow> string \<times> string" where
  "splitext p =
     (let sepIndex = rfind CHR ''/'' p;
          dotIndex = rfind CHR ''.'' p
      in if dotIndex > sepIndex then
           (case splitext_loop p (nat (sepIndex + 1)) (nat dotIndex) of
              Some r \<Rightarrow> r
            | None \<Rightarrow> (p, []))
         else (p, []))"

declare splitext_loop.simps [simp del]

subsection \<open>\<open>resolve_python_aws_handler\<close>\<close>

text \<open>A \<open>PythonAwsLambdaHandlerField\<close>: its class attribute \<open>alias\<close>, its value and its address.\<close>

record PythonAwsLambdaHandlerField =
  alias' :: string
  value' :: string
  address :: Address

record ResolvedPythonAwsHandler =
  val :: string
  file_name_used :: bool

record ResolvePythonAwsHandlerRequest =
  field :: PythonAwsLambdaHandlerField

datatype GlobMatchErrorBehavior = ignore | warn | error

record PathGlobs =
  globs :: "string list"
  glob_match_error_behavior :: GlobMatchErrorBehavior
  description_of_origin :: "string option"

record Paths =
  files :: "string list"
  dirs :: "string list"

record SourceRoot =
  path :: string

text \<open>
  The engine's answers to the two requests of the rule, \<open>Get(Paths, PathGlobs(...))\<close> and
  \<open>Get(SourceRoot, SourceRootRequest.for_file(handler_path))\<close>, and the working directory
  of the process, which \<open>os.path.relpath\<close> reads.
\<close>

record HandlerEngine =
  get_paths :: "PathGlobs \<Rightarrow> error + Paths"
  get_source_root :: "string \<Rightarrow> error + SourceRoot"
  getcwd :: string

text \<open>The \<open>PathGlobs\<close> of lines 115-119; \<open>str(address)\<close> is the address spec.\<close>

definition handler_path_globs :: "ResolvePythonAwsHandlerRequest \<Rightarrow> PathGlobs" where
  "handler_path_globs request =
     (let handler_val = value' (field request);
          field_alias = alias' (field request);
          addr = PythonAwsLambdaHandlerField.address (field request);
          (pathname, _, func) = str_partition CHR '':'' handler_val;
          full_glob = posix_join (spec_path addr) pathname
      in \<lparr>globs = [full_glob],
          glob_match_error_behavior = error,
          description_of_origin =
            Some (spec addr @ [CHR 0x27] @ ''s `'' @ field_alias @ ''` field'')\<rparr>)"

definition resolve_python_aws_handler ::
  "HandlerEngine \<Rightarrow> ResolvePythonAwsHandlerRequest \<Rightarrow> error + ResolvedPythonAwsHandler" where
  "resolve_python_aws_handler engine request =
     (let handler_val = value' (field request);
          (pathname, _, func) = str_partition CHR '':'' handler_val
      in if \<not> endswith pathname ''.py'' then Inr \<lparr>val = handler_val, file_name_used = False\<rparr>
         else
           (case get_paths engine (handler_path_globs request) of
              Inl e \<Rightarrow> Inl e
            | Inr handler_paths \<Rightarrow>
                if length (files handler_paths) \<noteq> 1 then Inl InvalidFieldException
                else
                  (let handler_path = hd (files handler_paths)
                   in case get_source_root engine handler_path of
                        Inl e \<Rightarrow> Inl e
                      | Inr source_root \<Rightarrow>
                          (case relpath (getcwd engine) handler_path (SourceRoot.path source_root) of
                             Inl e \<Rightarrow> Inl e
                           | Inr stripped_source_path \<Rightarrow>
                               (let (module_base, _) = splitext stripped_source_path;
                                    normalized_path = str_replace CHR ''/'' CHR ''.'' module_base
                                in Inr \<lparr>val = normalized_path @ '':'' @ func,
                                        file_name_used = True\<rparr>)))))"

subsection \<open>Concrete inputs for the handler rule\<close>

definition example_handler_request :: "string \<Rightarrow> ResolvePythonAwsHandlerRequest" where
  "example_handler_request v =
     \<lparr>field = \<lparr>alias' = ''handler'', value' = v,
                address = \<lparr>spec_path = ''src/python/project'', spec = ''src/python/project:lambda''\<rparr>\<rparr>\<rparr>"

definition example_handler_engine :: "string list \<Rightarrow> HandlerEngine" where
  "example_handler_engine tree =
     \<lparr>get_paths = (\<lambda>g. case filter (\<lambda>f. f \<in> set (globs g)) tree of
                         [] \<Rightarrow> (if glob_match_error_behavior g = error then Inl (EngineError ''no match'')
                                else Inr \<lparr>files = [], dirs = []\<rparr>)
                       | fs \<Rightarrow> Inr \<lparr>files = fs, dirs = []\<rparr>),
      get_source_root = (\<lambda>f. Inr \<lparr>SourceRoot.path = ''src/python''\<rparr>),
      getcwd = ''/build''\<rparr>"

text \<open>A path component that \<open>normpath\<close> keeps: neither empty nor \<open>.\<close>.\<close>

definition kept_component :: "string \<Rightarrow> bool" where
  "kept_component c \<longleftrightarrow> c \<noteq> [] \<and> c \<noteq> ''.''"

text \<open>A plain directory or file name: not empty, without separator, neither \<open>.\<close> nor \<open>..\<close>.\<close>

definition plain_name :: "string \<Rightarrow> bool" where
  "plain_name c \<longleftrightarrow> c \<noteq> [] \<and> CHR ''/'' \<notin> set c \<and> c \<noteq> ''.'' \<and> c \<noteq> ''..''"

section \<open>Properties of \<open>pants/core/goals/test.py\<close>\<close>

text \<open>
  C9.  \<open>enrich_test_result\<close> copies the six fields of the \<open>TestResult\<close> unchanged and
  adds only \<open>output_setting\<close>, taken from the subsystem's \<open>output\<close> option; hence the
  enriched \<open>TestResult.skip(address)\<close> satisfies \<open>skipped\<close>.
\<close>

theorem enrich_test_result_frame:
  "exit_code (enrich_test_result t s) = TestResult.exit_code t \<and>
   stdout (enrich_test_result t s) = TestResult.stdout t \<and>
   stderr (enrich_test_result t s) = TestResult.stderr t \<and>
   EnrichedTestResult.address (enrich_test_result t s) = TestResult.address t \<and>
   coverage_data (enrich_test_result t s) = TestResult.coverage_data t \<and>
   xml_results (enrich_test_result t s) = TestResult.xml_results t \<and>
   output_setting (enrich_test_result t s) = output' s \<and>
   skipped (enrich_test_result (skip a) s)"
  by (simp add: enrich_test_result_def skip_def skipped_def)

subsection \<open>Sorting and the summary loop\<close>

lemma lt_iff_key: "EnrichedTestResult_lt a b \<longleftrightarrow> result_key a < result_key b"
  by (cases "exit_code a"; cases "exit_code b")
     (auto simp: EnrichedTestResult_lt_def result_key_def)

lemma set_insert_lt: "set (insert_lt lt x ys) = insert x (set ys)"
  by (induction ys) auto

lemma set_sorted_py: "set (sorted_py lt xs) = set xs"
  by (induction xs) (auto simp: set_insert_lt)

lemma mset_insert_lt: "mset (insert_lt lt x ys) = add_mset x (mset ys)"
  by (induction ys) auto

lemma mset_sorted_py: "mset (sorted_py lt xs) = mset xs"
  by (induction xs) (auto simp: mset_insert_lt)

lemma sorted_insert_key:
  "sorted (map result_key ys) \<Longrightarrow> sorted (map result_key (insert_lt EnrichedTestResult_lt x ys))"
  by (induction ys) (auto simp: set_insert_lt lt_iff_key)

lemma sorted_sorted_py: "sorted (map result_key (sorted_py EnrichedTestResult_lt rs))"
  by (induction rs) (auto simp: sorted_insert_key)

lemma fst_summary_loop:
  "fst (summary_loop rs (code, w)) =
     (case filter failing rs of [] \<Rightarrow> code | f # fs \<Rightarrow> exit_code (last (f # fs)))"
  by (induction rs arbitrary: code w) (auto simp: failing_def split: list.splits)

lemma skipped_not_failing: "skipped r \<Longrightarrow> \<not> failing r"
  by (simp add: failing_def)

lemma fst_run_tests:
  assumes "\<not> debug s" "get_results engine = Inr results" "requests_succeed engine s results"
  shows "fst (run_tests engine s w) =
           Inr (Test (fst (summary_loop (sorted_py EnrichedTestResult_lt results)
                  (Some 0, if results \<noteq> [] then w\<lparr>console_stderr := console_stderr w @ [Blank]\<rparr> else w))))"
  using assms
  by (auto simp: run_tests_def requests_succeed_def Let_def split: prod.splits option.splits)
     (metis fst_conv option.distinct(1))+

lemma example_requests_succeed: "requests_succeed (example_engine rs ds) s rs'"
  by (simp add: requests_succeed_def example_engine_def)

text \<open>The lists made of three given elements.\<close>

lemma three_orders:
  assumes "mset xs = {#a, b, c#}"
  shows "xs \<in> {[a, b, c], [a, c, b], [b, a, c], [b, c, a], [c, a, b], [c, b, a]}"
proof -
  from assms have "size (mset xs) = 3" by simp
  then have "length xs = 3" by simp
  then obtain x y z where xs: "xs = [x, y, z]"
    by (auto simp: numeral_3_eq_3 length_Suc_conv)
  with assms show ?thesis
    by (auto simp: add_eq_conv_ex)
qed

text \<open>The debug loop runs every process there is and keeps the last exit code that is not 0.\<close>

lemma debug_loop_result:
  "debug_loop run ds (code, w) =
     (case filter (\<lambda>p. run p \<noteq> 0) (List.map_filter process ds) of
        [] \<Rightarrow> code
      | f # fs \<Rightarrow> run (last (f # fs)),
      w\<lparr>interactive_runs := interactive_runs w @ List.map_filter process ds\<rparr>)"
proof (induction ds arbitrary: code w)
  case Nil
  then show ?case by (simp add: List.map_filter_simps)
next
  case (Cons d ds)
  show ?case
  proof (cases "process d")
    case None
    with Cons show ?thesis by (simp add: List.map_filter_simps)
  next
    case (Some p)
    with Cons show ?thesis
      by (simp add: List.map_filter_simps split: list.splits)
  qed
qed

text \<open>
  C1.  In a run whose results are A (exit code 0), B (exit code 5) and C (skipped), in
  whatever order they arrive, sorting puts them in the order C, A, B and \<open>run_tests\<close>
  returns exit code 5, provided the requests after the summary do not raise.
\<close>

theorem summary_scenario:
  assumes A: "exit_code A = Some 0" and B: "exit_code B = Some 5"
    and C: "C = enrich_test_result (skip c) s"
    and order: "mset results = {#A, B, C#}"
    and run: "\<not> debug s" "get_results engine = Inr results" "requests_succeed engine s results"
  shows "sorted_py EnrichedTestResult_lt results = [C, A, B] \<and>
         fst (run_tests engine s w) = Inr (Test (Some 5))"
proof -
  have sk: "skipped C" and cn: "exit_code C = None"
    using C by (simp_all add: enrich_test_result_def skip_def skipped_def)
  have lt: "EnrichedTestResult_lt C A" "EnrichedTestResult_lt C B" "EnrichedTestResult_lt A B"
    "\<not> EnrichedTestResult_lt A C" "\<not> EnrichedTestResult_lt B C" "\<not> EnrichedTestResult_lt B A"
    using A B cn by (simp_all add: EnrichedTestResult_lt_def)
  from order have "results \<in> {[A, B, C], [A, C, B], [B, A, C], [B, C, A], [C, A, B], [C, B, A]}"
    by (rule three_orders)
  then have srt: "sorted_py EnrichedTestResult_lt results = [C, A, B]"
    using lt by auto
  have flt: "filter failing [C, A, B] = [B]"
    using A B sk by (simp add: failing_def skipped_def)
  have "fst (run_tests engine s w) =
      Inr (Test (case filter failing [C, A, B] of [] \<Rightarrow> Some 0
                 | f # fs \<Rightarrow> exit_code (last (f # fs))))"
    using fst_run_tests [OF run] unfolding srt fst_summary_loop .
  then have "fst (run_tests engine s w) = Inr (Test (Some 5))"
    unfolding flt using B by simp
  with srt show ?thesis by simp
qed

text \<open>An instance of the preceding theorem, with the results arriving as B, C, A.\<close>

theorem summary_scenario_witness:
  "sorted_py EnrichedTestResult_lt
     [example_result (Some 5) ''b'',
      enrich_test_result (skip \<lparr>spec_path = [], spec = ''c''\<rparr>) (example_subsystem False),
      example_result (Some 0) ''a''] =
     [enrich_test_result (skip \<lparr>spec_path = [], spec = ''c''\<rparr>) (example_subsystem False),
      example_result (Some 0) ''a'', example_result (Some 5) ''b''] \<and>
   fst (run_tests
     (example_engine [example_result (Some 5) ''b'',
        enrich_test_result (skip \<lparr>spec_path = [], spec = ''c''\<rparr>) (example_subsystem False),
        example_result (Some 0) ''a''] [])
     (example_subsystem False) empty_world) = Inr (Test (Some 5))"
proof -
  let ?A = "example_result (Some 0) ''a''"
  let ?B = "example_result (Some 5) ''b''"
  let ?C = "enrich_test_result (skip \<lparr>spec_path = [], spec = ''c''\<rparr>) (example_subsystem False)"
  have A: "exit_code ?A = Some 0" and B: "exit_code ?B = Some 5"
    by (simp_all add: example_result_def)
  have order: "mset [?B, ?C, ?A] = {#?A, ?B, ?C#}"
    by simp
  have run: "\<not> debug (example_subsystem False)"
    "get_results (example_engine [?B, ?C, ?A] []) = Inr [?B, ?C, ?A]"
    by (simp_all add: example_subsystem_def example_engine_def)
  show ?thesis
    using summary_scenario [OF A B refl order run example_requests_succeed, of empty_world]
    by simp
qed

text \<open>
  C2 as stated fails: for two failed results with exit codes 1 and 2 the first non-zero
  code in sorted order is 1, and \<open>run_tests\<close> returns 2.
\<close>

theorem first_nonzero_counterexample:
  "fst (run_tests (example_engine [example_result (Some 1) ''a'', example_result (Some 2) ''b''] [])
         (example_subsystem False) empty_world) = Inr (Test (Some 2)) \<and>
   first_nonzero_exit_code_spec [example_result (Some 1) ''a'', example_result (Some 2) ''b''] = Some 1"
  by (simp add: run_tests_def example_engine_def example_subsystem_def example_result_def
      EnrichedTestResult_lt_def failing_def skipped_def first_nonzero_exit_code_spec_def
      List.map_filter_simps empty_world_def)

text \<open>
  C2, amended.  Outside debug mode, when the requests after the summary do not raise,
  \<open>run_tests\<close> returns exit code 0 if and only if every non-skipped result has exit
  code 0, and otherwise returns the exit code of the last result, in sorted order, that is
  not skipped and has an exit code other than 0.
\<close>

theorem run_tests_exit_code:
  assumes "\<not> debug s" "get_results engine = Inr results" "requests_succeed engine s results"
  shows "fst (run_tests engine s w) =
           Inr (Test (case filter failing (sorted_py EnrichedTestResult_lt results) of
                        [] \<Rightarrow> Some 0
                      | f # fs \<Rightarrow> exit_code (last (f # fs)))) \<and>
         (fst (run_tests engine s w) = Inr (Test (Some 0)) \<longleftrightarrow>
            (\<forall>r \<in> set results. \<not> skipped r \<longrightarrow> exit_code r = Some 0))"
proof -
  let ?fs = "filter failing (sorted_py EnrichedTestResult_lt results)"
  have eq: "fst (run_tests engine s w) =
      Inr (Test (case ?fs of [] \<Rightarrow> Some 0 | f # fs \<Rightarrow> exit_code (last (f # fs))))"
    using fst_run_tests [OF assms] by (simp add: fst_summary_loop)
  have none: "?fs = [] \<longleftrightarrow> (\<forall>r \<in> set results. \<not> skipped r \<longrightarrow> exit_code r = Some 0)"
    by (auto simp: filter_empty_conv set_sorted_py failing_def)
  have nz: "exit_code (last ?fs) \<noteq> Some 0" if "?fs \<noteq> []"
  proof -
    from that have "last ?fs \<in> set ?fs" by (rule last_in_set)
    then show ?thesis by (simp add: failing_def)
  qed
  show ?thesis
  proof (cases ?fs)
    case Nil
    with eq none show ?thesis by simp
  next
    case (Cons f fs)
    with nz have "exit_code (last (f # fs)) \<noteq> Some 0" by simp
    with eq none Cons show ?thesis by simp
  qed
qed

text \<open>An instance of the preceding theorem on concrete inputs.\<close>

theorem run_tests_exit_code_witness:
  "fst (run_tests (example_engine [example_result (Some 2) ''b'', example_result (Some 0) ''c'',
         example_result (Some 1) ''a''] []) (example_subsystem False) empty_world) =
     Inr (Test (Some 2))"
  using run_tests_exit_code [of "example_subsystem False"
      "example_engine [example_result (Some 2) ''b'', example_result (Some 0) ''c'',
         example_result (Some 1) ''a''] []"
      "[example_result (Some 2) ''b'', example_result (Some 0) ''c'', example_result (Some 1) ''a'']"
      empty_world]
    example_requests_succeed
  by (simp add: example_engine_def example_subsystem_def example_result_def
      EnrichedTestResult_lt_def failing_def skipped_def)

text \<open>
  C3 as stated fails: a succeeded result sorts before a failed one with a positive exit
  code, and of two failed results the one with the smaller exit code sorts first whatever
  the addresses.
\<close>

theorem summary_order_counterexample:
  "EnrichedTestResult_lt (example_result (Some 0) ''a'') (example_result (Some 5) ''b'') \<and>
   \<not> summary_order_spec (example_result (Some 0) ''a'') (example_result (Some 5) ''b'') \<and>
   EnrichedTestResult_lt (example_result (Some 1) ''b'') (example_result (Some 2) ''a'') \<and>
   \<not> summary_order_spec (example_result (Some 1) ''b'') (example_result (Some 2) ''a'')"
  by (simp add: EnrichedTestResult_lt_def summary_order_spec_def outcome_category_spec_def
      example_result_def skipped_def)

text \<open>
  C3, amended.  A result without exit code (skipped) sorts before every result with one; a
  result with exit code 0 (succeeded) sorts before every result with a positive exit code
  (failed); two results with the same exit code are ordered by their address spec,
  lexically.
\<close>

theorem summary_order:
  "(exit_code a = None \<and> exit_code b \<noteq> None \<longrightarrow>
      EnrichedTestResult_lt a b \<and> \<not> EnrichedTestResult_lt b a) \<and>
   (exit_code a = Some 0 \<and> (\<exists>c. exit_code b = Some c \<and> 0 < c) \<longrightarrow>
      EnrichedTestResult_lt a b \<and> \<not> EnrichedTestResult_lt b a) \<and>
   (exit_code a = exit_code b \<longrightarrow>
      (EnrichedTestResult_lt a b \<longleftrightarrow> spec (EnrichedTestResult.address a) < spec (EnrichedTestResult.address b)))"
  by (auto simp: EnrichedTestResult_lt_def split: option.splits)

text \<open>An instance of the preceding theorem on concrete inputs.\<close>

theorem summary_order_witness:
  "EnrichedTestResult_lt (example_result None ''z'') (example_result (Some 0) ''a'') \<and>
   \<not> EnrichedTestResult_lt (example_result (Some 0) ''a'') (example_result None ''z'') \<and>
   EnrichedTestResult_lt (example_result (Some 0) ''z'') (example_result (Some 5) ''a'') \<and>
   \<not> EnrichedTestResult_lt (example_result (Some 5) ''a'') (example_result (Some 0) ''z'') \<and>
   EnrichedTestResult_lt (example_result (Some 5) ''a'') (example_result (Some 5) ''b'')"
  using summary_order [of "example_result None ''z''" "example_result (Some 0) ''a''"]
    summary_order [of "example_result (Some 0) ''z''" "example_result (Some 5) ''a''"]
    summary_order [of "example_result (Some 5) ''a''" "example_result (Some 5) ''b''"]
  by (simp add: example_result_def)

text \<open>
  C4 as stated fails: with two debug requests both processes are run, and the exit code
  returned is that of the first although the process run last exits with 0; with a debug
  request that has no process nothing is run and the exit code is 0.
\<close>

theorem debug_single_process_counterexample:
  "run_tests (example_engine []
       [\<lparr>process = Some (InteractiveProcess [''pytest'', ''--pdb'', ''a.py''])\<rparr>,
        \<lparr>process = Some (InteractiveProcess [])\<rparr>])
      (example_subsystem True) empty_world =
     (Inr (Test (Some 3)),
      empty_world\<lparr>interactive_runs :=
        [InteractiveProcess [''pytest'', ''--pdb'', ''a.py''], InteractiveProcess []]\<rparr>) \<and>
   interactive_run (example_engine []
       [\<lparr>process = Some (InteractiveProcess [''pytest'', ''--pdb'', ''a.py''])\<rparr>,
        \<lparr>process = Some (InteractiveProcess [])\<rparr>]) (InteractiveProcess []) = 0 \<and>
   run_tests (example_engine [] [\<lparr>process = None\<rparr>]) (example_subsystem True) empty_world =
     (Inr (Test (Some 0)), empty_world)"
  by (simp add: run_tests_def example_engine_def example_subsystem_def empty_world_def)

text \<open>
  C4, amended.  In debug mode \<open>run_tests\<close> hands the process of every debug request that
  has one to the interactive runner, in request order, and returns the last exit code
  among them that is not 0, or 0 when there is none; the results of the batched path, the
  digest merge and the coverage report play no part, and nothing is printed or written.
  With a single debug request that has a process, the exit code is that process's own.
\<close>

theorem run_tests_debug:
  assumes "debug s" "get_debug_requests engine = Inr debug_requests"
  shows "run_tests engine s w =
           (Inr (Test (Some
              (case filter (\<lambda>p. interactive_run engine p \<noteq> 0)
                      (List.map_filter process debug_requests) of
                 [] \<Rightarrow> 0
               | f # fs \<Rightarrow> interactive_run engine (last (f # fs))))),
            w\<lparr>interactive_runs := interactive_runs w @ List.map_filter process debug_requests\<rparr>) \<and>
         (\<forall>p. debug_requests = [\<lparr>process = Some p\<rparr>] \<longrightarrow>
            run_tests engine s w =
              (Inr (Test (Some (interactive_run engine p))),
               w\<lparr>interactive_runs := interactive_runs w @ [p]\<rparr>))"
  using assms
  by (auto simp: run_tests_def debug_loop_result List.map_filter_simps)

text \<open>An instance of the preceding theorem: three debug requests, and a single one.\<close>

theorem run_tests_debug_witness:
  "run_tests (example_engine [example_result (Some 5) ''b'']
       [\<lparr>process = Some (InteractiveProcess [''pytest'', ''--pdb'', ''t.py''])\<rparr>,
        \<lparr>process = None\<rparr>,
        \<lparr>process = Some (InteractiveProcess [])\<rparr>])
      (example_subsystem True) empty_world =
     (Inr (Test (Some 3)),
      empty_world\<lparr>interactive_runs :=
        [InteractiveProcess [''pytest'', ''--pdb'', ''t.py''], InteractiveProcess []]\<rparr>) \<and>
   run_tests (example_engine [example_result (Some 5) ''b'']
       [\<lparr>process = Some (InteractiveProcess [''pytest'', ''--pdb'', ''t.py''])\<rparr>])
      (example_subsystem True) empty_world =
     (Inr (Test (Some 3)),
      empty_world\<lparr>interactive_runs := [InteractiveProcess [''pytest'', ''--pdb'', ''t.py'']]\<rparr>)"
  using run_tests_debug [of "example_subsystem True"
      "example_engine [example_result (Some 5) ''b'']
       [\<lparr>process = Some (InteractiveProcess [''pytest'', ''--pdb'', ''t.py''])\<rparr>,
        \<lparr>process = None\<rparr>,
        \<lparr>process = Some (InteractiveProcess [])\<rparr>]"
      "[\<lparr>process = Some (InteractiveProcess [''pytest'', ''--pdb'', ''t.py''])\<rparr>,
        \<lparr>process = None\<rparr>,
        \<lparr>process = Some (InteractiveProcess [])\<rparr>]" empty_world]
    run_tests_debug [of "example_subsystem True"
      "example_engine [example_result (Some 5) ''b'']
       [\<lparr>process = Some (InteractiveProcess [''pytest'', ''--pdb'', ''t.py''])\<rparr>]"
      "[\<lparr>process = Some (InteractiveProcess [''pytest'', ''--pdb'', ''t.py''])\<rparr>]" empty_world]
  by (simp add: example_engine_def example_subsystem_def empty_world_def List.map_filter_simps)

text \<open>
  C8.  Outside debug mode, when there are no results or every result is skipped,
  \<open>run_tests\<close> returns exit code 0 (the requests after the summary not raising).
\<close>

theorem run_tests_nothing_to_do:
  assumes "\<not> debug s" "get_results engine = Inr results"
    and "requests_succeed engine s results"
    and "\<forall>r \<in> set results. skipped r"
  shows "fst (run_tests engine s w) = Inr (Test (Some 0))"
proof -
  have "filter failing (sorted_py EnrichedTestResult_lt results) = []"
    using assms(4) by (auto simp: filter_empty_conv set_sorted_py skipped_not_failing)
  then show ?thesis
    using fst_run_tests [OF assms(1-3)] by (simp add: fst_summary_loop)
qed

text \<open>An instance of the preceding theorem on concrete inputs.\<close>

theorem run_tests_nothing_to_do_witness:
  "fst (run_tests (example_engine [] []) (example_subsystem False) empty_world) = Inr (Test (Some 0)) \<and>
   fst (run_tests (example_engine [example_result None ''a'', example_result None ''b''] [])
          (example_subsystem False) empty_world) = Inr (Test (Some 0))"
  using run_tests_nothing_to_do [of "example_subsystem False" "example_engine [] []" "[]" empty_world]
    run_tests_nothing_to_do [of "example_subsystem False"
      "example_engine [example_result None ''a'', example_result None ''b''] []"
      "[example_result None ''a'', example_result None ''b'']" empty_world]
    example_requests_succeed
  by (simp add: example_engine_def example_subsystem_def example_result_def skipped_def)

section \<open>Properties of \<open>pants/backend/go/util_rules/sdk.py\<close>\<close>

text \<open>
  C5.  A \<open>GoSdkProcess\<close> constructed without \<open>allow_downloads\<close>, or with
  \<open>allow_downloads=False\<close>, has as \<open>env\<close> the caller's mapping \<open>m\<close> with \<open>GOPROXY\<close> set to
  \<open>off\<close>, whatever \<open>m\<close> had for that name (and just that entry when the caller gave no
  mapping).  With \<open>allow_downloads=True\<close> the \<open>env\<close> is exactly \<open>m\<close> (empty when the caller
  gave none).
\<close>

theorem go_sdk_process_env:
  "GoSdkProcess.env (GoSdkProcess_init cmd (kw\<lparr>kw_env := Some m, kw_allow_downloads := None\<rparr>)) =
     m(''GOPROXY'' \<mapsto> ''off'') \<and>
   GoSdkProcess.env (GoSdkProcess_init cmd (kw\<lparr>kw_env := Some m, kw_allow_downloads := Some False\<rparr>)) =
     m(''GOPROXY'' \<mapsto> ''off'') \<and>
   GoSdkProcess.env (GoSdkProcess_init cmd (kw\<lparr>kw_env := None, kw_allow_downloads := None\<rparr>)) =
     [''GOPROXY'' \<mapsto> ''off''] \<and>
   GoSdkProcess.env (GoSdkProcess_init cmd (kw\<lparr>kw_env := None, kw_allow_downloads := Some False\<rparr>)) =
     [''GOPROXY'' \<mapsto> ''off''] \<and>
   GoSdkProcess.env (GoSdkProcess_init cmd (kw\<lparr>kw_env := Some m, kw_allow_downloads := Some True\<rparr>)) = m \<and>
   GoSdkProcess.env (GoSdkProcess_init cmd (kw\<lparr>kw_env := None, kw_allow_downloads := Some True\<rparr>)) =
     Map.empty \<and>
   GoSdkProcess.env (GoSdkProcess_init cmd (kw\<lparr>kw_allow_downloads := None\<rparr>)) ''GOPROXY'' = Some ''off'' \<and>
   GoSdkProcess.env (GoSdkProcess_init cmd (kw\<lparr>kw_allow_downloads := Some False\<rparr>)) ''GOPROXY'' =
     Some ''off''"
  by (simp add: GoSdkProcess_init_def env_or_empty_def)

lemma environment_vars_cong:
  "\<forall>n \<in> set names. a1 n = a2 n \<Longrightarrow> environment_vars names a1 = environment_vars names a2"
  by (auto simp: environment_vars_def restrict_map_def fun_eq_iff)

lemma environment_vars_SomeD: "environment_vars names a x = Some y \<Longrightarrow> x \<in> set names"
  by (auto simp: environment_vars_def restrict_map_def split: if_splits)

text \<open>
  C7.  Two ambient environments that agree on the variables named by
  \<open>env_vars_to_pass_to_subprocesses\<close> give equal results of \<open>setup_go_sdk_process\<close>; the
  \<open>env\<close> of the constructed \<open>Process\<close> has no variable besides the allow-listed ones, those
  of the request's own \<open>env\<close>, the two control variables and the cache key.
\<close>

theorem setup_go_sdk_process_env_allow_list:
  "((\<forall>n \<in> set (env_vars_to_pass_to_subprocesses aware). ambient1 n = ambient2 n) \<longrightarrow>
      setup_go_sdk_process (engine\<lparr>ambient_env := ambient1\<rparr>) request go_sdk_run bash aware goroot =
      setup_go_sdk_process (engine\<lparr>ambient_env := ambient2\<rparr>) request go_sdk_run bash aware goroot) \<and>
   (\<forall>p. setup_go_sdk_process engine request go_sdk_run bash aware goroot = Inr p \<longrightarrow>
      dom (Process.env p) \<subseteq>
        set (env_vars_to_pass_to_subprocesses aware) \<union> dom (GoSdkProcess.env request) \<union>
        {CHDIR_ENV, SANDBOX_ROOT_ENV, ''__PANTS_GO_SDK_CACHE_KEY''})"
proof (intro conjI impI allI)
  assume "\<forall>n \<in> set (env_vars_to_pass_to_subprocesses aware). ambient1 n = ambient2 n"
  then have "environment_vars (env_vars_to_pass_to_subprocesses aware) ambient1 =
             environment_vars (env_vars_to_pass_to_subprocesses aware) ambient2"
    by (rule environment_vars_cong)
  then show "setup_go_sdk_process (engine\<lparr>ambient_env := ambient1\<rparr>) request go_sdk_run bash aware goroot =
      setup_go_sdk_process (engine\<lparr>ambient_env := ambient2\<rparr>) request go_sdk_run bash aware goroot"
    by (simp add: setup_go_sdk_process_def Let_def split: sum.splits)
next
  fix p
  assume "setup_go_sdk_process engine request go_sdk_run bash aware goroot = Inr p"
  then show "dom (Process.env p) \<subseteq>
        set (env_vars_to_pass_to_subprocesses aware) \<union> dom (GoSdkProcess.env request) \<union>
        {CHDIR_ENV, SANDBOX_ROOT_ENV, ''__PANTS_GO_SDK_CACHE_KEY''}"
    by (auto simp: setup_go_sdk_process_def Let_def split: sum.splits if_splits
        dest: environment_vars_SomeD)
qed

text \<open>An instance of the preceding theorem: a secret of the ambient environment is not passed on.\<close>

theorem setup_go_sdk_process_env_allow_list_witness:
  "setup_go_sdk_process (example_sdk_engine [''PATH'' \<mapsto> ''/bin'', ''AWS_SECRET'' \<mapsto> ''hunter2''])
      example_go_request example_go_sdk_run \<lparr>BashBinary.path = ''/bin/bash''\<rparr>
      \<lparr>env_vars_to_pass_to_subprocesses = [''PATH'', ''HOME'']\<rparr> example_goroot =
   setup_go_sdk_process (example_sdk_engine [''PATH'' \<mapsto> ''/bin'', ''AWS_SECRET'' \<mapsto> ''other'', ''USER'' \<mapsto> ''me''])
      example_go_request example_go_sdk_run \<lparr>BashBinary.path = ''/bin/bash''\<rparr>
      \<lparr>env_vars_to_pass_to_subprocesses = [''PATH'', ''HOME'']\<rparr> example_goroot \<and>
   (\<exists>p. setup_go_sdk_process (example_sdk_engine [''PATH'' \<mapsto> ''/bin'', ''AWS_SECRET'' \<mapsto> ''hunter2''])
      example_go_request example_go_sdk_run \<lparr>BashBinary.path = ''/bin/bash''\<rparr>
      \<lparr>env_vars_to_pass_to_subprocesses = [''PATH'', ''HOME'']\<rparr> example_goroot = Inr p \<and>
      ''AWS_SECRET'' \<notin> dom (Process.env p) \<and> Process.env p ''PATH'' = Some ''/bin'')"
proof -
  let ?a1 = "[''PATH'' \<mapsto> ''/bin'', ''AWS_SECRET'' \<mapsto> ''hunter2'']"
  let ?a2 = "[''PATH'' \<mapsto> ''/bin'', ''AWS_SECRET'' \<mapsto> ''other'', ''USER'' \<mapsto> ''me'']"
  let ?aware = "\<lparr>env_vars_to_pass_to_subprocesses = [''PATH'', ''HOME'']\<rparr>"
  let ?bash = "\<lparr>BashBinary.path = ''/bin/bash''\<rparr>"
  have agree: "\<forall>n \<in> set (env_vars_to_pass_to_subprocesses ?aware). ?a1 n = ?a2 n"
    by simp
  have eng: "(example_sdk_engine a)\<lparr>ambient_env := b\<rparr> = example_sdk_engine b" for a b
    by (simp add: example_sdk_engine_def)
  note inst = setup_go_sdk_process_env_allow_list
    [of ?aware ?a1 ?a2 "example_sdk_engine ?a1" example_go_request example_go_sdk_run
        ?bash example_goroot]
  from inst agree have eq:
    "setup_go_sdk_process (example_sdk_engine ?a1) example_go_request example_go_sdk_run
        ?bash ?aware example_goroot =
     setup_go_sdk_process (example_sdk_engine ?a2) example_go_request example_go_sdk_run
        ?bash ?aware example_goroot"
    unfolding eng by blast
  obtain p where p: "setup_go_sdk_process (example_sdk_engine ?a1) example_go_request
      example_go_sdk_run ?bash ?aware example_goroot = Inr p"
    by (simp add: setup_go_sdk_process_def example_sdk_engine_def)
  have path: "Process.env p ''PATH'' = Some ''/bin''"
    using p
    by (auto simp: setup_go_sdk_process_def example_sdk_engine_def example_go_request_def
        example_go_sdk_run_def example_goroot_def GoSdkProcess_init_def env_or_empty_def
        environment_vars_def CHDIR_ENV_def SANDBOX_ROOT_ENV_def restrict_map_def map_add_def)
  from inst p have "dom (Process.env p) \<subseteq>
      set (env_vars_to_pass_to_subprocesses ?aware) \<union> dom (GoSdkProcess.env example_go_request) \<union>
      {CHDIR_ENV, SANDBOX_ROOT_ENV, ''__PANTS_GO_SDK_CACHE_KEY''}"
    by blast
  moreover have "''AWS_SECRET'' \<notin>
      set (env_vars_to_pass_to_subprocesses ?aware) \<union> dom (GoSdkProcess.env example_go_request) \<union>
      {CHDIR_ENV, SANDBOX_ROOT_ENV, ''__PANTS_GO_SDK_CACHE_KEY''}"
    by (simp add: example_go_request_def GoSdkProcess_init_def env_or_empty_def
        CHDIR_ENV_def SANDBOX_ROOT_ENV_def)
  ultimately have "''AWS_SECRET'' \<notin> dom (Process.env p)"
    by blast
  with eq p path show ?thesis by blast
qed

section \<open>Properties of \<open>pants/backend/awslambda/python/target_types.py\<close>\<close>

subsection \<open>The runtime pattern\<close>

lemma strip_prefix_Some: "strip_prefix p s = Some r \<longleftrightarrow> s = p @ r"
  by (induction p s rule: strip_prefix.induct) auto

lemma strip_prefix_append: "strip_prefix p (p @ r) = Some r"
  by (simp add: strip_prefix_Some)

lemma code_points_python: "code_points ''python'' = [112, 121, 116, 104, 111, 110]"
  by (simp add: code_points_def)

lemma code_points_dot: "code_points ''.'' = [46]" "of_char CHR ''.'' = (46::nat)"
  by (simp_all add: code_points_def)

lemma match_python_runtime_Some:
  "match_python_runtime py v = Some (mj, mn) \<longleftrightarrow>
     (\<exists>d rest. v = code_points ''python'' @ [d] @ code_points ''.'' @ rest \<and> is_digit py d \<and>
        takeWhile (is_digit py) rest \<noteq> [] \<and> mj = [d] \<and> mn = takeWhile (is_digit py) rest)"
  unfolding match_python_runtime_def
  by (auto simp: strip_prefix_Some strip_prefix_append code_points_dot
      split: option.splits list.splits)

lemma match_iff_regex: "match_python_runtime py v \<noteq> None \<longleftrightarrow> matches_runtime_regex py v"
proof
  assume "match_python_runtime py v \<noteq> None"
  then obtain mj mn where "match_python_runtime py v = Some (mj, mn)" by auto
  then obtain d rest where v: "v = code_points ''python'' @ [d] @ code_points ''.'' @ rest"
    and d: "is_digit py d" and ne: "takeWhile (is_digit py) rest \<noteq> []"
    unfolding match_python_runtime_Some by blast
  have "v = code_points ''python'' @ [d] @ code_points ''.'' @
      takeWhile (is_digit py) rest @ dropWhile (is_digit py) rest"
    using v by simp
  moreover have "\<forall>c \<in> set (takeWhile (is_digit py) rest). is_digit py c"
    by (auto dest: set_takeWhileD)
  ultimately show "matches_runtime_regex py v"
    unfolding matches_runtime_regex_def using d ne by blast
next
  assume "matches_runtime_regex py v"
  then obtain d ds rest where v: "v = code_points ''python'' @ [d] @ code_points ''.'' @ ds @ rest"
    and d: "is_digit py d" and ne: "ds \<noteq> []" and ds: "\<forall>c \<in> set ds. is_digit py c"
    unfolding matches_runtime_regex_def by blast
  from ds have "takeWhile (is_digit py) (ds @ rest) = ds @ takeWhile (is_digit py) rest"
    by (simp add: takeWhile_append2)
  with ne have "takeWhile (is_digit py) (ds @ rest) \<noteq> []" by simp
  with v d have "match_python_runtime py v = Some ([d], takeWhile (is_digit py) (ds @ rest))"
    unfolding match_python_runtime_Some by simp
  then show "match_python_runtime py v \<noteq> None" by simp
qed

lemma foldl_digits:
  "foldl (\<lambda>n c. 10 * n + digit_value py c) a s = a * 10 ^ length s + decimal_value py s"
  by (induction s arbitrary: a) (simp_all add: algebra_simps)

lemma int_of_digits_within_limit:
  assumes "s \<noteq> []" "\<forall>c \<in> set s. is_digit py c"
    and "int_max_str_digits py = 0 \<or> length s \<le> int_max_str_digits py"
  shows "int_of_digits py s = Inr (decimal_value py s)"
  using assms by (auto simp: int_of_digits_def foldl_digits list_all_iff)

lemma int_of_digits_beyond_limit:
  assumes "\<forall>c \<in> set s. is_digit py c"
    and "0 < int_max_str_digits py" "int_max_str_digits py < length s"
  shows "int_of_digits py s = Inl ValueError"
  using assms by (auto simp: int_of_digits_def)

lemma accepted_decomposition:
  assumes "match_python_runtime py v = Some (mj, mn)"
  shows "\<exists>d rest. v = code_points ''python'' @ [d] @ code_points ''.'' @ mn @ rest \<and> mj = [d] \<and>
           is_digit py d \<and> mn \<noteq> [] \<and> (\<forall>c \<in> set mn. is_digit py c) \<and>
           (rest = [] \<or> \<not> is_digit py (hd rest))"
proof -
  from assms obtain d r where v: "v = code_points ''python'' @ [d] @ code_points ''.'' @ r"
    and d: "is_digit py d" and ne: "takeWhile (is_digit py) r \<noteq> []" and mj: "mj = [d]"
    and mn: "mn = takeWhile (is_digit py) r"
    unfolding match_python_runtime_Some by blast
  have "v = code_points ''python'' @ [d] @ code_points ''.'' @ mn @ dropWhile (is_digit py) r"
    using v mn by simp
  moreover have "\<forall>c \<in> set mn. is_digit py c"
    using mn by (auto dest: set_takeWhileD)
  moreover have "dropWhile (is_digit py) r = [] \<or> \<not> is_digit py (hd (dropWhile (is_digit py) r))"
    using hd_dropWhile [of "is_digit py" r] by blast
  ultimately show ?thesis using d ne mj mn by blast
qed

text \<open>
  C10, amended.  \<open>PythonAwsLambdaRuntime.compute_value\<close> returns \<open>None\<close> for a raw value
  \<open>None\<close>, returns a string that the pattern matches unchanged, and raises
  \<open>InvalidFieldException\<close> for every other string.  Every accepted value is \<open>python\<close>, a
  digit, a dot and a longest run of digits, followed by anything; \<open>to_interpreter_version\<close>
  returns the numbers that the digit and the run denote when the run is no longer than
  the interpreter's limit on integer strings (or there is no limit), and raises
  \<open>ValueError\<close> when it is longer.
\<close>

theorem runtime_compute_value:
  "PythonAwsLambdaRuntime_compute_value py None addr = Inr None \<and>
   (matches_runtime_regex py v \<longrightarrow>
      PythonAwsLambdaRuntime_compute_value py (Some v) addr = Inr (Some v)) \<and>
   (\<not> matches_runtime_regex py v \<longrightarrow>
      PythonAwsLambdaRuntime_compute_value py (Some v) addr = Inl InvalidFieldException) \<and>
   (PythonAwsLambdaRuntime_compute_value py raw addr = Inr (Some v) \<longrightarrow>
      (\<exists>d ds rest. v = code_points ''python'' @ [d] @ code_points ''.'' @ ds @ rest \<and>
         is_digit py d \<and> ds \<noteq> [] \<and> (\<forall>c \<in> set ds. is_digit py c) \<and>
         (rest = [] \<or> \<not> is_digit py (hd rest)) \<and>
         (int_max_str_digits py = 0 \<or> length ds \<le> int_max_str_digits py \<longrightarrow>
            to_interpreter_version py (Some v) =
              Inr (Some (digit_value py d, decimal_value py ds))) \<and>
         (0 < int_max_str_digits py \<and> int_max_str_digits py < length ds \<longrightarrow>
            to_interpreter_version py (Some v) = Inl ValueError)))"
proof (intro conjI impI)
  show "PythonAwsLambdaRuntime_compute_value py None addr = Inr None"
    by (simp add: PythonAwsLambdaRuntime_compute_value_def StringField_compute_value_def
        PythonAwsLambdaRuntime_default_def)
next
  assume "matches_runtime_regex py v"
  then have "match_python_runtime py v \<noteq> None" using match_iff_regex [of py v] by blast
  then show "PythonAwsLambdaRuntime_compute_value py (Some v) addr = Inr (Some v)"
    by (simp add: PythonAwsLambdaRuntime_compute_value_def StringField_compute_value_def)
next
  assume "\<not> matches_runtime_regex py v"
  then have "match_python_runtime py v = None" using match_iff_regex [of py v] by blast
  then show "PythonAwsLambdaRuntime_compute_value py (Some v) addr = Inl InvalidFieldException"
    by (simp add: PythonAwsLambdaRuntime_compute_value_def StringField_compute_value_def)
next
  assume "PythonAwsLambdaRuntime_compute_value py raw addr = Inr (Some v)"
  then have "match_python_runtime py v \<noteq> None"
    by (auto simp: PythonAwsLambdaRuntime_compute_value_def StringField_compute_value_def
        PythonAwsLambdaRuntime_default_def split: option.splits if_splits)
  then obtain mj mn where m: "match_python_runtime py v = Some (mj, mn)" by auto
  from accepted_decomposition [OF m] obtain d rest where
    v: "v = code_points ''python'' @ [d] @ code_points ''.'' @ mn @ rest" and mj: "mj = [d]"
    and d: "is_digit py d" and ne: "mn \<noteq> []" and ds: "\<forall>c \<in> set mn. is_digit py c"
    and mx: "rest = [] \<or> \<not> is_digit py (hd rest)"
    by blast
  have "int_max_str_digits py = 0 \<or> length mj \<le> int_max_str_digits py"
    using mj by auto
  moreover have "mj \<noteq> []" "\<forall>c \<in> set mj. is_digit py c"
    using mj d by simp_all
  ultimately have "int_of_digits py mj = Inr (decimal_value py mj)"
    by (intro int_of_digits_within_limit)
  then have major: "int_of_digits py mj = Inr (digit_value py d)"
    using mj by simp
  have ok: "to_interpreter_version py (Some v) =
      Inr (Some (digit_value py d, decimal_value py mn))"
    if "int_max_str_digits py = 0 \<or> length mn \<le> int_max_str_digits py"
    using m major int_of_digits_within_limit [OF ne ds that]
    by (simp add: to_interpreter_version_def)
  have bad: "to_interpreter_version py (Some v) = Inl ValueError"
    if "0 < int_max_str_digits py \<and> int_max_str_digits py < length mn"
    using m major int_of_digits_beyond_limit [OF ds, of] that
    by (simp add: to_interpreter_version_def)
  from v d ne ds mx ok bad
  show "\<exists>d ds rest. v = code_points ''python'' @ [d] @ code_points ''.'' @ ds @ rest \<and>
         is_digit py d \<and> ds \<noteq> [] \<and> (\<forall>c \<in> set ds. is_digit py c) \<and>
         (rest = [] \<or> \<not> is_digit py (hd rest)) \<and>
         (int_max_str_digits py = 0 \<or> length ds \<le> int_max_str_digits py \<longrightarrow>
            to_interpreter_version py (Some v) =
              Inr (Some (digit_value py d, decimal_value py ds))) \<and>
         (0 < int_max_str_digits py \<and> int_max_str_digits py < length ds \<longrightarrow>
            to_interpreter_version py (Some v) = Inl ValueError)"
    by blast
qed

lemma example_is_digit:
  "is_digit example_interpreter c \<longleftrightarrow> (48 \<le> c \<and> c \<le> 57) \<or> (1632 \<le> c \<and> c \<le> 1641)"
  by (simp add: is_digit_def example_interpreter_def)

lemma example_digit_value:
  "digit_value example_interpreter c =
     (if 48 \<le> c \<and> c \<le> 57 then int (c - 48)
      else if 1632 \<le> c \<and> c \<le> 1641 then int (c - 1632) else 0)"
  by (simp add: digit_value_def example_interpreter_def)

lemma example_limit: "int_max_str_digits example_interpreter = 4300"
  by (simp add: example_interpreter_def)

text \<open>
  C10 as stated fails in its last part: on an interpreter with the default limit of 4300
  digits the value \<open>python3.\<close> followed by 4301 digits is accepted by \<open>compute_value\<close>, and
  \<open>to_interpreter_version\<close> raises \<open>ValueError\<close> on it.
\<close>

theorem version_beyond_limit_counterexample:
  "PythonAwsLambdaRuntime_compute_value example_interpreter
     (Some (code_points ''python3.'' @ replicate 4301 49))
     \<lparr>spec_path = ''src/py'', spec = ''src/py:lambda''\<rparr> =
     Inr (Some (code_points ''python3.'' @ replicate 4301 49)) \<and>
   to_interpreter_version example_interpreter
     (Some (code_points ''python3.'' @ replicate 4301 49)) = Inl ValueError"
proof -
  let ?v = "code_points ''python3.'' @ replicate 4301 49"
  have m: "match_python_runtime example_interpreter ?v = Some ([51], replicate 4301 49)"
    by (simp add: match_python_runtime_def code_points_def example_is_digit)
  have major: "int_of_digits example_interpreter [51] = Inr 3"
    by (simp add: int_of_digits_def example_is_digit example_digit_value example_limit)
  have minor: "int_of_digits example_interpreter (replicate 4301 49) = Inl ValueError"
    by (simp add: int_of_digits_def example_is_digit example_limit)
  show ?thesis
    using m major minor
    by (simp add: PythonAwsLambdaRuntime_compute_value_def StringField_compute_value_def
        to_interpreter_version_def)
qed

text \<open>
  An instance of the preceding theorem: \<open>python3.10\<close> is accepted, \<open>python310\<close> is not,
  and a value written with Arabic-Indic digits is accepted and read.
\<close>

theorem runtime_compute_value_witness:
  "PythonAwsLambdaRuntime_compute_value example_interpreter (Some (code_points ''python3.10''))
     \<lparr>spec_path = ''src/py'', spec = ''src/py:lambda''\<rparr> = Inr (Some (code_points ''python3.10'')) \<and>
   PythonAwsLambdaRuntime_compute_value example_interpreter (Some (code_points ''python310''))
     \<lparr>spec_path = ''src/py'', spec = ''src/py:lambda''\<rparr> = Inl InvalidFieldException \<and>
   to_interpreter_version example_interpreter (Some (code_points ''python3.10'')) =
     Inr (Some (3, 10)) \<and>
   to_interpreter_version example_interpreter
     (Some (code_points ''python'' @ [1635] @ code_points ''.'' @ [1640, 49] @ code_points ''-x''))
     = Inr (Some (3, 81))"
proof -
  let ?py = example_interpreter
  let ?addr = "\<lparr>spec_path = ''src/py'', spec = ''src/py:lambda''\<rparr>"
  let ?u = "code_points ''python'' @ [1635] @ code_points ''.'' @ [1640, 49] @ code_points ''-x''"
  have m: "match_python_runtime ?py (code_points ''python3.10'') \<noteq> None"
    by (simp add: match_python_runtime_def code_points_def example_is_digit)
  have n: "match_python_runtime ?py (code_points ''python310'') = None"
    by (simp add: match_python_runtime_def code_points_def example_is_digit)
  have mu: "match_python_runtime ?py ?u \<noteq> None"
    by (simp add: match_python_runtime_def code_points_def example_is_digit)
  from m have yes: "matches_runtime_regex ?py (code_points ''python3.10'')"
    by (simp only: match_iff_regex)
  from mu have yes_u: "matches_runtime_regex ?py ?u"
    by (simp only: match_iff_regex)
  from n have no: "\<not> matches_runtime_regex ?py (code_points ''python310'')"
    using match_iff_regex by blast
  have a: "PythonAwsLambdaRuntime_compute_value ?py (Some (code_points ''python3.10'')) ?addr =
      Inr (Some (code_points ''python3.10''))"
    using runtime_compute_value [of ?py ?addr "code_points ''python3.10''"] yes by blast
  have b: "PythonAwsLambdaRuntime_compute_value ?py (Some (code_points ''python310'')) ?addr =
      Inl InvalidFieldException"
    using runtime_compute_value [of ?py ?addr "code_points ''python310''"] no by blast
  have au: "PythonAwsLambdaRuntime_compute_value ?py (Some ?u) ?addr = Inr (Some ?u)"
    using runtime_compute_value [of ?py ?addr ?u] yes_u by blast
  have c: "to_interpreter_version ?py (Some (code_points ''python3.10'')) = Inr (Some (3, 10))"
    by (simp add: to_interpreter_version_def match_python_runtime_def code_points_def
        example_is_digit int_of_digits_def example_digit_value example_limit)
  have d: "to_interpreter_version ?py (Some ?u) = Inr (Some (3, 81))"
    by (simp add: to_interpreter_version_def match_python_runtime_def code_points_def
        example_is_digit int_of_digits_def example_digit_value example_limit)
  from a b au c d show ?thesis by blast
qed

subsection \<open>The handler rule\<close>

text \<open>The branches of \<open>resolve_python_aws_handler\<close>, one by one.\<close>

lemma resolve_python_aws_handler_steps:
  assumes part: "str_partition CHR '':'' (value' (field request)) = (pathname, sep, func)"
  shows
    "(\<not> endswith pathname ''.py'' \<longrightarrow>
        resolve_python_aws_handler engine request =
          Inr \<lparr>val = value' (field request), file_name_used = False\<rparr>) \<and>
     (endswith pathname ''.py'' \<longrightarrow>
        glob_match_error_behavior (handler_path_globs request) = error \<and>
        globs (handler_path_globs request) =
          [posix_join (spec_path (PythonAwsLambdaHandlerField.address (field request))) pathname] \<and>
        (\<forall>e. get_paths engine (handler_path_globs request) = Inl e \<longrightarrow>
           resolve_python_aws_handler engine request = Inl e) \<and>
        (\<forall>ps. get_paths engine (handler_path_globs request) = Inr ps \<and> 1 < length (files ps) \<longrightarrow>
           resolve_python_aws_handler engine request = Inl InvalidFieldException) \<and>
        (\<forall>ps f root rel.
           get_paths engine (handler_path_globs request) = Inr ps \<and> files ps = [f] \<and>
           get_source_root engine f = Inr root \<and>
           relpath (getcwd engine) f (SourceRoot.path root) = Inr rel \<longrightarrow>
           resolve_python_aws_handler engine request =
             Inr \<lparr>val = str_replace CHR ''/'' CHR ''.'' (fst (splitext rel)) @ '':'' @ func,
                  file_name_used = True\<rparr>))"
proof (intro conjI impI allI)
  assume "\<not> endswith pathname ''.py''"
  then show "resolve_python_aws_handler engine request =
      Inr \<lparr>val = value' (field request), file_name_used = False\<rparr>"
    using part by (simp add: resolve_python_aws_handler_def)
next
  show "glob_match_error_behavior (handler_path_globs request) = error"
    by (simp add: handler_path_globs_def Let_def split: prod.splits)
next
  show "globs (handler_path_globs request) =
      [posix_join (spec_path (PythonAwsLambdaHandlerField.address (field request))) pathname]"
    using part by (simp add: handler_path_globs_def Let_def)
next
  fix e
  assume "endswith pathname ''.py''" "get_paths engine (handler_path_globs request) = Inl e"
  then show "resolve_python_aws_handler engine request = Inl e"
    using part by (simp add: resolve_python_aws_handler_def)
next
  fix ps
  assume "endswith pathname ''.py''"
    "get_paths engine (handler_path_globs request) = Inr ps \<and> 1 < length (files ps)"
  then show "resolve_python_aws_handler engine request = Inl InvalidFieldException"
    using part by (simp add: resolve_python_aws_handler_def)
next
  fix ps f root rel
  assume "endswith pathname ''.py''"
    "get_paths engine (handler_path_globs request) = Inr ps \<and> files ps = [f] \<and>
     get_source_root engine f = Inr root \<and>
     relpath (getcwd engine) f (SourceRoot.path root) = Inr rel"
  then show "resolve_python_aws_handler engine request =
      Inr \<lparr>val = str_replace CHR ''/'' CHR ''.'' (fst (splitext rel)) @ '':'' @ func,
           file_name_used = True\<rparr>"
    using part by (simp add: resolve_python_aws_handler_def Let_def split: prod.splits)
qed

subsection \<open>Paths made of plain names\<close>

lemma str_join_Cons:
  "str_join sep (x # xs) = (if xs = [] then x else x @ sep @ str_join sep xs)"
  by (cases xs) simp_all

lemma str_split_no_sep: "sep \<notin> set w \<Longrightarrow> str_split sep w = [w]"
  by (induction w) auto

lemma str_split_append:
  "sep \<notin> set w \<Longrightarrow> str_split sep (w @ sep # r) = w # str_split sep r"
  by (induction w) (auto split: list.splits)

lemma str_split_join:
  "comps \<noteq> [] \<Longrightarrow> \<forall>c \<in> set comps. sep \<notin> set c \<Longrightarrow>
     str_split sep (str_join [sep] comps) = comps"
proof (induction comps)
  case Nil
  then show ?case by simp
next
  case (Cons x xs)
  show ?case
  proof (cases "xs = []")
    case True
    with Cons.prems show ?thesis by (simp add: str_split_no_sep)
  next
    case False
    with Cons show ?thesis by (simp add: str_join_Cons str_split_append)
  qed
qed

lemma commonprefix_append: "commonprefix xs (xs @ ys) = xs"
  by (induction xs) auto

lemma str_replace_id: "old \<notin> set s \<Longrightarrow> str_replace old new s = s"
  by (induction s) (auto simp: str_replace_def)

lemma str_replace_append:
  "str_replace old new (a @ b) = str_replace old new a @ str_replace old new b"
  by (simp add: str_replace_def)

lemma str_replace_join:
  "\<forall>c \<in> set comps. CHR ''/'' \<notin> set c \<Longrightarrow>
     str_replace CHR ''/'' CHR ''.'' (str_join ''/'' comps) = str_join ''.'' comps"
proof (induction comps)
  case Nil
  then show ?case by (simp add: str_replace_def)
next
  case (Cons x xs)
  then show ?case
    by (cases "xs = []")
       (simp_all add: str_join_Cons str_replace_append str_replace_id, simp add: str_replace_def)
qed

lemma rfind_from_append:
  "rfind_from c (xs @ ys) i found = rfind_from c ys (i + int (length xs)) (rfind_from c xs i found)"
  by (induction xs arbitrary: i found) (simp_all add: add.assoc)

lemma rfind_from_absent: "c \<notin> set xs \<Longrightarrow> rfind_from c xs i found = found"
  by (induction xs arbitrary: i) auto

lemma rfind_last_occurrence:
  "c \<notin> set ys \<Longrightarrow> rfind c (xs @ c # ys) = int (length xs)"
  by (simp add: rfind_def rfind_from_append rfind_from_absent)

lemma rfind_absent: "c \<notin> set xs \<Longrightarrow> rfind c xs = - 1"
  by (simp add: rfind_def rfind_from_absent)

lemma splitext_loop_found:
  "i \<le> k \<Longrightarrow> k < dotIndex \<Longrightarrow> take 1 (drop k p) \<noteq> ''.'' \<Longrightarrow>
     splitext_loop p i dotIndex = Some (take dotIndex p, drop dotIndex p)"
proof (induction p i dotIndex rule: splitext_loop.induct)
  case (1 p filenameIndex dotIndex)
  show ?case
  proof (cases "take 1 (drop filenameIndex p) \<noteq> ''.''")
    case True
    with "1.prems" show ?thesis by (simp add: splitext_loop.simps [of p filenameIndex])
  next
    case False
    with "1.prems" have "filenameIndex \<noteq> k" by auto
    with "1.prems" have "filenameIndex + 1 \<le> k" by simp
    with "1.IH" False "1.prems" show ?thesis
      by (simp add: splitext_loop.simps [of p filenameIndex])
  qed
qed

lemma splitext_py:
  assumes d: "d = [] \<or> last d = CHR ''/''"
    and name: "CHR ''/'' \<notin> set name" "\<exists>c \<in> set name. c \<noteq> CHR ''.''"
  shows "splitext (d @ name @ ''.py'') = (d @ name, ''.py'')"
proof -
  let ?p = "d @ name @ ''.py''"
  have dot: "rfind CHR ''.'' ?p = int (length d + length name)"
    using rfind_last_occurrence [of "CHR ''.''" "''py''" "d @ name"] by simp
  have sep: "rfind CHR ''/'' ?p = int (length d) - 1"
  proof (cases "d = []")
    case True
    with name show ?thesis by (simp add: rfind_absent)
  next
    case False
    with d obtain d' where "d = d' @ ''/''"
      by (metis append_butlast_last_id)
    then show ?thesis
      using name rfind_last_occurrence [of "CHR ''/''" "name @ ''.py''" d'] by simp
  qed
  from name(2) obtain j where j: "j < length name" "name ! j \<noteq> CHR ''.''"
    by (auto simp: in_set_conv_nth)
  then have "take 1 (drop (length d + j) ?p) \<noteq> ''.''"
    by (simp add: take_Suc_conv_app_nth drop_append hd_drop_conv_nth take_Suc)
  then have "splitext_loop ?p (length d) (length d + length name) =
      Some (take (length d + length name) ?p, drop (length d + length name) ?p)"
    using j(1) by (intro splitext_loop_found [of _ "length d + j"]) simp_all
  moreover have "nat (int (length d) + int (length name)) = length d + length name"
    by simp
  ultimately show ?thesis
    using dot sep by (simp add: splitext_def Let_def del: of_nat_add)
qed

lemma str_split_ne: "str_split sep s \<noteq> []"
  by (induction s) (auto split: list.splits)

lemma str_split_sep_append:
  "str_split sep (a @ sep # b) = str_split sep a @ str_split sep b"
proof (induction a)
  case Nil
  then show ?case by simp
next
  case (Cons c a)
  obtain w ws where "str_split sep a = w # ws"
    using str_split_ne [of sep a] by (cases "str_split sep a") auto
  with Cons show ?case by simp
qed

lemma str_split_components: "w \<in> set (str_split sep s) \<Longrightarrow> sep \<notin> set w"
proof (induction s arbitrary: w)
  case Nil
  then show ?case by simp
next
  case (Cons c s)
  then show ?case by (auto split: if_splits list.splits)
qed

lemma foldl_normpath_step:
  "''..'' \<notin> set comps \<Longrightarrow>
     foldl (normpath_step n) acc comps = acc @ filter kept_component comps"
  by (induction comps arbitrary: acc) (auto simp: normpath_step_def kept_component_def)

lemma normpath_absolute:
  assumes "q = [] \<or> hd q \<noteq> CHR ''/''" and "''..'' \<notin> set (str_split CHR ''/'' q)"
  shows "normpath (CHR ''/'' # q) =
           CHR ''/'' # str_join ''/'' (filter kept_component (str_split CHR ''/'' q))"
proof -
  have two: "\<not> startswith (CHR ''/'' # q) ''//''"
    using assms(1) by (cases q) (auto simp: startswith_def)
  have one: "startswith (CHR ''/'' # q) ''/''"
    by (simp add: startswith_def)
  have "foldl (normpath_step 1) [] (str_split CHR ''/'' (CHR ''/'' # q)) =
      filter kept_component (str_split CHR ''/'' q)"
    using assms(2) by (simp add: foldl_normpath_step kept_component_def normpath_step_def)
  then show ?thesis
    using one two by (simp add: normpath_def Let_def)
qed

lemma components_of_joined:
  assumes "\<forall>c \<in> set comps. c \<noteq> [] \<and> CHR ''/'' \<notin> set c"
  shows "filter (\<lambda>x. x \<noteq> []) (str_split CHR ''/'' (CHR ''/'' # str_join ''/'' comps)) = comps"
proof (cases "comps = []")
  case True
  then show ?thesis by simp
next
  case False
  with assms have "str_split CHR ''/'' (str_join ''/'' comps) = comps"
    using str_split_join [of comps "CHR ''/''"] by simp
  moreover have "filter (\<lambda>x. x \<noteq> []) comps = comps"
    using assms by (simp add: filter_id_conv)
  ultimately show ?thesis by simp
qed

lemma endswith_char: "endswith a [c] \<longleftrightarrow> a \<noteq> [] \<and> last a = c"
proof (cases a rule: rev_cases)
  case Nil
  then show ?thesis by (simp add: endswith_def)
next
  case (snoc ys y)
  then show ?thesis by (simp add: endswith_def)
qed

lemma startswith_char: "startswith p [c] \<longleftrightarrow> p \<noteq> [] \<and> hd p = c"
  by (cases p) (simp_all add: startswith_def)

lemma str_join_plain:
  assumes "comps \<noteq> []" "\<forall>c \<in> set comps. c \<noteq> [] \<and> CHR ''/'' \<notin> set c"
  shows "str_join ''/'' comps \<noteq> [] \<and> hd (str_join ''/'' comps) \<noteq> CHR ''/'' \<and>
         last (str_join ''/'' comps) \<noteq> CHR ''/''"
  using assms
proof (induction comps)
  case Nil
  then show ?case by simp
next
  case (Cons x xs)
  from Cons.prems have x: "x \<noteq> []" "CHR ''/'' \<notin> set x" by simp_all
  then have hx: "hd x \<noteq> CHR ''/''" and lx: "last x \<noteq> CHR ''/''"
    using hd_in_set last_in_set by metis+
  show ?case
  proof (cases "xs = []")
    case True
    with x hx lx show ?thesis by simp
  next
    case False
    with Cons have "str_join ''/'' xs \<noteq> []" "last (str_join ''/'' xs) \<noteq> CHR ''/''"
      by simp_all
    with False x hx show ?thesis by (simp add: str_join_Cons)
  qed
qed

lemma plain_name_kept: "plain_name c \<Longrightarrow> kept_component c"
  by (simp add: plain_name_def kept_component_def)

lemma abspath_components:
  assumes cwd: "cwd = CHR ''/'' # str_join ''/'' cs" and cs: "\<forall>c \<in> set cs. plain_name c"
    and rel: "p = [] \<or> hd p \<noteq> CHR ''/''"
    and nodd: "''..'' \<notin> set (str_split CHR ''/'' p)"
  shows "filter (\<lambda>x. x \<noteq> []) (str_split CHR ''/'' (abspath cwd p)) =
           cs @ filter kept_component (str_split CHR ''/'' p)"
proof -
  let ?kept = "filter kept_component (str_split CHR ''/'' p)"
  have np: "\<not> startswith p ''/''"
    using rel by (auto simp: startswith_char)
  have kept: "\<forall>c \<in> set (cs @ ?kept). c \<noteq> [] \<and> CHR ''/'' \<notin> set c"
    using cs by (auto simp: plain_name_def kept_component_def dest: str_split_components)
  have "normpath (posix_join cwd p) = CHR ''/'' # str_join ''/'' (cs @ ?kept)"
  proof (cases "cs = []")
    case True
    with cwd np have "posix_join cwd p = CHR ''/'' # p"
      by (simp add: posix_join_def endswith_char)
    with True show ?thesis
      using normpath_absolute [OF rel nodd] by simp
  next
    case False
    with cs have pl: "str_join ''/'' cs \<noteq> []" "hd (str_join ''/'' cs) \<noteq> CHR ''/''"
      "last (str_join ''/'' cs) \<noteq> CHR ''/''"
      using str_join_plain [of cs] by (simp_all add: plain_name_def)
    let ?q = "str_join ''/'' cs @ CHR ''/'' # p"
    from cwd np pl have pj: "posix_join cwd p = CHR ''/'' # ?q"
      by (simp add: posix_join_def endswith_char)
    have split: "str_split CHR ''/'' ?q = cs @ str_split CHR ''/'' p"
      using False cs str_split_join [of cs "CHR ''/''"]
      by (simp add: str_split_sep_append plain_name_def)
    have "''..'' \<notin> set cs" using cs by (auto simp: plain_name_def)
    with nodd split have nd: "''..'' \<notin> set (str_split CHR ''/'' ?q)" by simp
    have hq: "?q = [] \<or> hd ?q \<noteq> CHR ''/''" using pl by simp
    have "filter kept_component cs = cs"
      using cs by (simp add: filter_id_conv plain_name_kept)
    with split have "filter kept_component (str_split CHR ''/'' ?q) = cs @ ?kept" by simp
    with pj show ?thesis
      using normpath_absolute [OF hq nd] by simp
  qed
  with np have "abspath cwd p = CHR ''/'' # str_join ''/'' (cs @ ?kept)"
    by (simp add: abspath_def)
  then show ?thesis
    using components_of_joined [OF kept] by simp
qed

lemma posix_join_all_plain:
  assumes "a \<noteq> []" "last a \<noteq> CHR ''/''" "\<forall>b \<in> set bs. b \<noteq> [] \<and> CHR ''/'' \<notin> set b"
  shows "foldl posix_join a bs = str_join ''/'' (a # bs)"
  using assms
proof (induction bs arbitrary: a)
  case Nil
  then show ?case by simp
next
  case (Cons b bs)
  from Cons.prems have b: "b \<noteq> []" "CHR ''/'' \<notin> set b" by simp_all
  then have "hd b \<noteq> CHR ''/''" "last b \<noteq> CHR ''/''"
    using hd_in_set last_in_set by metis+
  with Cons.prems b have pj: "posix_join a b = a @ ''/'' @ b"
    by (simp add: posix_join_def startswith_char endswith_char)
  have "foldl posix_join (a @ ''/'' @ b) bs = str_join ''/'' ((a @ ''/'' @ b) # bs)"
    using Cons.prems b \<open>last b \<noteq> CHR ''/''\<close> by (intro Cons.IH) simp_all
  with pj show ?case by (simp add: str_join_Cons)
qed

lemma relpath_under_root:
  assumes cwd: "cwd = CHR ''/'' # str_join ''/'' cs" and cs: "\<forall>c \<in> set cs. plain_name c"
    and f: "f \<noteq> []" "hd f \<noteq> CHR ''/''" "''..'' \<notin> set (str_split CHR ''/'' f)"
    and root: "root = [] \<or> hd root \<noteq> CHR ''/''" "''..'' \<notin> set (str_split CHR ''/'' root)"
    and under: "filter kept_component (str_split CHR ''/'' f) =
                  filter kept_component (str_split CHR ''/'' root) @ rest" "rest \<noteq> []"
  shows "relpath cwd f root = Inr (str_join ''/'' rest)"
proof -
  let ?R = "filter kept_component (str_split CHR ''/'' root)"
  have sl: "filter (\<lambda>x. x \<noteq> []) (str_split CHR ''/'' (abspath cwd root)) = cs @ ?R"
    using abspath_components [OF cwd cs root] .
  have pl: "filter (\<lambda>x. x \<noteq> []) (str_split CHR ''/'' (abspath cwd f)) = (cs @ ?R) @ rest"
    using abspath_components [OF cwd cs _ f(3), of] f(2) under(1) by simp
  have "set rest \<subseteq> set (filter kept_component (str_split CHR ''/'' f))"
    using under(1) by simp
  then have plain: "\<forall>b \<in> set rest. b \<noteq> [] \<and> CHR ''/'' \<notin> set b"
    by (auto simp: kept_component_def dest: str_split_components)
  obtain r rs where rest: "rest = r # rs" using under(2) by (cases rest) auto
  with plain have r0: "r \<noteq> []" "CHR ''/'' \<notin> set r" by simp_all
  then have r: "r \<noteq> []" "last r \<noteq> CHR ''/''"
    using last_in_set by metis+
  have "posix_join_all rest = str_join ''/'' rest"
    using rest posix_join_all_plain [OF r, of rs] plain by simp
  moreover have "commonprefix (cs @ ?R) ((cs @ ?R) @ rest) = cs @ ?R"
    by (rule commonprefix_append)
  ultimately show ?thesis
    using f(1) under(2) unfolding relpath_def sl pl Let_def
    by simp
qed

lemma str_join_snoc:
  "str_join sep (xs @ [y]) = (if xs = [] then y else str_join sep xs @ sep @ y)"
  by (induction xs) (auto simp: str_join_Cons)

lemma module_of_file:
  assumes cwd: "cwd = CHR ''/'' # str_join ''/'' cs" and cs: "\<forall>c \<in> set cs. plain_name c"
    and rs: "\<forall>c \<in> set rs. plain_name c" and ms: "\<forall>c \<in> set ms. plain_name c"
    and name: "CHR ''/'' \<notin> set name" "\<exists>c \<in> set name. c \<noteq> CHR ''.''"
    and root: "root = str_join ''/'' rs \<or> (rs = [] \<and> root = ''.'')"
  shows "relpath cwd (str_join ''/'' (rs @ ms @ [name @ ''.py''])) root =
           Inr (str_join ''/'' (ms @ [name @ ''.py''])) \<and>
         str_replace CHR ''/'' CHR ''.'' (fst (splitext (str_join ''/'' (ms @ [name @ ''.py'']))))
           = str_join ''.'' (ms @ [name])"
proof -
  let ?file = "name @ ''.py''"
  let ?f = "str_join ''/'' (rs @ ms @ [?file])"
  have pfile: "plain_name ?file"
    using name(1) by (auto simp: plain_name_def)
  have all: "\<forall>c \<in> set (rs @ ms @ [?file]). plain_name c"
    using rs ms pfile by auto
  then have nosep: "\<forall>c \<in> set (rs @ ms @ [?file]). c \<noteq> [] \<and> CHR ''/'' \<notin> set c"
    by (auto simp: plain_name_def)
  have splitf: "str_split CHR ''/'' ?f = rs @ ms @ [?file]"
    using str_split_join [of "rs @ ms @ [?file]" "CHR ''/''"] nosep by simp
  have keptf: "filter kept_component (rs @ ms @ [?file]) = rs @ ms @ [?file]"
    using all by (simp add: filter_id_conv plain_name_kept del: append_assoc)
  have f1: "?f \<noteq> []" and f2: "hd ?f \<noteq> CHR ''/''"
    using str_join_plain [of "rs @ ms @ [?file]"] nosep by simp_all
  have f3: "''..'' \<notin> set (str_split CHR ''/'' ?f)"
    unfolding splitf using all by (auto simp: plain_name_def)
  have r1: "root = [] \<or> hd root \<noteq> CHR ''/''"
  proof (cases "rs = []")
    case True
    with root show ?thesis by auto
  next
    case False
    with root rs show ?thesis
      using str_join_plain [of rs] by (auto simp: plain_name_def)
  qed
  have splitr: "filter kept_component (str_split CHR ''/'' root) = rs"
  proof (cases "rs = []")
    case True
    with root show ?thesis by (auto simp: kept_component_def)
  next
    case False
    with root rs have "str_split CHR ''/'' root = rs"
      using str_split_join [of rs "CHR ''/''"] by (auto simp: plain_name_def)
    then show ?thesis using rs by (simp add: filter_id_conv plain_name_kept)
  qed
  have r2: "''..'' \<notin> set (str_split CHR ''/'' root)"
  proof (cases "rs = []")
    case True
    with root show ?thesis by auto
  next
    case False
    with root rs have "str_split CHR ''/'' root = rs"
      using str_split_join [of rs "CHR ''/''"] by (auto simp: plain_name_def)
    then show ?thesis using rs by (auto simp: plain_name_def)
  qed
  have under: "filter kept_component (str_split CHR ''/'' ?f) =
      filter kept_component (str_split CHR ''/'' root) @ (ms @ [?file])"
    unfolding splitf keptf splitr by simp
  have rel: "relpath cwd ?f root = Inr (str_join ''/'' (ms @ [?file]))"
    using relpath_under_root [OF cwd cs f1 f2 f3 r1 r2 under] by simp
  let ?d = "if ms = [] then [] else str_join ''/'' ms @ ''/''"
  have d: "?d = [] \<or> last ?d = CHR ''/''" by simp
  have "str_join ''/'' (ms @ [?file]) = ?d @ name @ ''.py''"
    by (simp add: str_join_snoc)
  then have "fst (splitext (str_join ''/'' (ms @ [?file]))) = ?d @ name"
    using splitext_py [OF d name] by simp
  also have "\<dots> = str_join ''/'' (ms @ [name])"
    by (simp add: str_join_snoc)
  finally have "str_replace CHR ''/'' CHR ''.'' (fst (splitext (str_join ''/'' (ms @ [?file])))) =
      str_join ''.'' (ms @ [name])"
    using str_replace_join [of "ms @ [name]"] ms name(1) by (auto simp: plain_name_def)
  with rel show ?thesis by simp
qed

text \<open>
  C6.  Let the handler value split at its first colon into a path part and a function
  name.  If the path part does not end in \<open>.py\<close>, the value is returned unchanged with
  \<open>file_name_used=False\<close>.  If it does, the rule asks the engine for the glob made of the
  address's directory and the path part, with error behaviour \<open>error\<close>; an exception of
  that request is the rule's; more than one matched file raises
  \<open>InvalidFieldException\<close>; and one matched file gives, with \<open>file_name_used=True\<close>, its
  path relative to its source root, without extension, with dots for separators, then a
  colon and the function name.  In particular, for a file \<open>name.py\<close> in the directories
  \<open>ms\<close> below the source root \<open>rs\<close> (plain names, the name not made of dots only) the
  result is the names of \<open>ms\<close> and \<open>name\<close> joined by dots, a colon and the function name.
\<close>

theorem resolve_python_aws_handler_cases:
  assumes part: "str_partition CHR '':'' (value' (field request)) = (pathname, sep, func)"
  shows
    "(\<not> endswith pathname ''.py'' \<longrightarrow>
        resolve_python_aws_handler engine request =
          Inr \<lparr>val = value' (field request), file_name_used = False\<rparr>) \<and>
     (endswith pathname ''.py'' \<longrightarrow>
        glob_match_error_behavior (handler_path_globs request) = error \<and>
        globs (handler_path_globs request) =
          [posix_join (spec_path (PythonAwsLambdaHandlerField.address (field request))) pathname] \<and>
        (\<forall>e. get_paths engine (handler_path_globs request) = Inl e \<longrightarrow>
           resolve_python_aws_handler engine request = Inl e) \<and>
        (\<forall>ps. get_paths engine (handler_path_globs request) = Inr ps \<and> 1 < length (files ps) \<longrightarrow>
           resolve_python_aws_handler engine request = Inl InvalidFieldException) \<and>
        (\<forall>ps f root rel.
           get_paths engine (handler_path_globs request) = Inr ps \<and> files ps = [f] \<and>
           get_source_root engine f = Inr root \<and>
           relpath (getcwd engine) f (SourceRoot.path root) = Inr rel \<longrightarrow>
           resolve_python_aws_handler engine request =
             Inr \<lparr>val = str_replace CHR ''/'' CHR ''.'' (fst (splitext rel)) @ '':'' @ func,
                  file_name_used = True\<rparr>) \<and>
        (\<forall>ps cs rs ms name.
           get_paths engine (handler_path_globs request) = Inr ps \<and>
           files ps = [str_join ''/'' (rs @ ms @ [name @ ''.py''])] \<and>
           get_source_root engine (str_join ''/'' (rs @ ms @ [name @ ''.py''])) =
             Inr \<lparr>SourceRoot.path = str_join ''/'' rs\<rparr> \<and>
           getcwd engine = CHR ''/'' # str_join ''/'' cs \<and>
           (\<forall>c \<in> set (cs @ rs @ ms). plain_name c) \<and>
           CHR ''/'' \<notin> set name \<and> (\<exists>c \<in> set name. c \<noteq> CHR ''.'') \<longrightarrow>
           resolve_python_aws_handler engine request =
             Inr \<lparr>val = str_join ''.'' (ms @ [name]) @ '':'' @ func, file_name_used = True\<rparr>))"
proof -
  note steps = resolve_python_aws_handler_steps [OF part, of engine]
  have "resolve_python_aws_handler engine request =
      Inr \<lparr>val = str_join ''.'' (ms @ [name]) @ '':'' @ func, file_name_used = True\<rparr>"
    if py: "endswith pathname ''.py''"
      and ps: "get_paths engine (handler_path_globs request) = Inr ps"
        "files ps = [str_join ''/'' (rs @ ms @ [name @ ''.py''])]"
      and sr: "get_source_root engine (str_join ''/'' (rs @ ms @ [name @ ''.py''])) =
        Inr \<lparr>SourceRoot.path = str_join ''/'' rs\<rparr>"
      and cwd: "getcwd engine = CHR ''/'' # str_join ''/'' cs"
      and plain: "\<forall>c \<in> set (cs @ rs @ ms). plain_name c"
      and name: "CHR ''/'' \<notin> set name" "\<exists>c \<in> set name. c \<noteq> CHR ''.''"
    for ps cs rs ms name
  proof -
    from plain have cs: "\<forall>c \<in> set cs. plain_name c" and rs: "\<forall>c \<in> set rs. plain_name c"
      and ms: "\<forall>c \<in> set ms. plain_name c" by auto
    have m: "relpath (getcwd engine) (str_join ''/'' (rs @ ms @ [name @ ''.py'']))
          (SourceRoot.path \<lparr>SourceRoot.path = str_join ''/'' rs\<rparr>) =
        Inr (str_join ''/'' (ms @ [name @ ''.py'']))"
      and x: "str_replace CHR ''/'' CHR ''.''
          (fst (splitext (str_join ''/'' (ms @ [name @ ''.py''])))) = str_join ''.'' (ms @ [name])"
      using module_of_file [OF cwd cs rs ms name, of "str_join ''/'' rs"] by simp_all
    from steps py ps sr m have "resolve_python_aws_handler engine request =
        Inr \<lparr>val = str_replace CHR ''/'' CHR ''.''
                 (fst (splitext (str_join ''/'' (ms @ [name @ ''.py''])))) @ '':'' @ func,
             file_name_used = True\<rparr>"
      by blast
    with x show ?thesis by simp
  qed
  with steps show ?thesis by blast
qed

text \<open>
  An instance of the preceding theorem: a file name, a module path, a file that does not
  exist and a glob with two matches.
\<close>

theorem resolve_python_aws_handler_cases_witness:
  "resolve_python_aws_handler (example_handler_engine [''src/python/project/lambda.py''])
     (example_handler_request ''lambda.py:run'') =
     Inr \<lparr>val = ''project.lambda:run'', file_name_used = True\<rparr> \<and>
   resolve_python_aws_handler (example_handler_engine [''src/python/project/lambda.py''])
     (example_handler_request ''project.lambda:run'') =
     Inr \<lparr>val = ''project.lambda:run'', file_name_used = False\<rparr> \<and>
   resolve_python_aws_handler (example_handler_engine [''src/python/project/lambda.py''])
     (example_handler_request ''missing.py:run'') = Inl (EngineError ''no match'') \<and>
   resolve_python_aws_handler
     (example_handler_engine [''src/python/project/lambda.py'', ''src/python/project/lambda.py''])
     (example_handler_request ''lambda.py:run'') = Inl InvalidFieldException"
proof -
  let ?engine = "example_handler_engine [''src/python/project/lambda.py'']"
  let ?engine2 =
    "example_handler_engine [''src/python/project/lambda.py'', ''src/python/project/lambda.py'']"
  let ?r1 = "example_handler_request ''lambda.py:run''"
  let ?r2 = "example_handler_request ''project.lambda:run''"
  let ?r3 = "example_handler_request ''missing.py:run''"
  have p1: "str_partition CHR '':'' (value' (field ?r1)) = (''lambda.py'', '':'', ''run'')"
    by (simp add: example_handler_request_def str_partition_def)
  have p2: "str_partition CHR '':'' (value' (field ?r2)) = (''project.lambda'', '':'', ''run'')"
    by (simp add: example_handler_request_def str_partition_def)
  have p3: "str_partition CHR '':'' (value' (field ?r3)) = (''missing.py'', '':'', ''run'')"
    by (simp add: example_handler_request_def str_partition_def)
  have e1: "endswith ''lambda.py'' ''.py''" and e2: "\<not> endswith ''project.lambda'' ''.py''"
    and e3: "endswith ''missing.py'' ''.py''"
    by (simp_all add: endswith_def)
  have g1: "get_paths ?engine (handler_path_globs ?r1) =
      Inr \<lparr>files = [''src/python/project/lambda.py''], dirs = []\<rparr>"
    by code_simp
  have f1: "files \<lparr>files = [''src/python/project/lambda.py''], dirs = []\<rparr> =
      [str_join ''/'' ([''src'', ''python''] @ [''project''] @ [''lambda'' @ ''.py''])]"
    by simp
  have s1: "get_source_root ?engine (str_join ''/'' ([''src'', ''python''] @ [''project''] @ [''lambda'' @ ''.py''])) =
      Inr \<lparr>SourceRoot.path = str_join ''/'' [''src'', ''python'']\<rparr>"
    by (simp add: example_handler_engine_def)
  have c1: "getcwd ?engine = CHR ''/'' # str_join ''/'' [''build'']"
    by (simp add: example_handler_engine_def)
  have n1: "\<forall>c \<in> set ([''build''] @ [''src'', ''python''] @ [''project'']). plain_name c"
    by (simp add: plain_name_def)
  have m1: "CHR ''/'' \<notin> set ''lambda''" "\<exists>c \<in> set ''lambda''. c \<noteq> CHR ''.''"
    by simp_all
  have g3: "get_paths ?engine (handler_path_globs ?r3) = Inl (EngineError ''no match'')"
    by code_simp
  have g4: "get_paths ?engine2 (handler_path_globs ?r1) =
      Inr \<lparr>files = [''src/python/project/lambda.py'', ''src/python/project/lambda.py''], dirs = []\<rparr>"
    by code_simp
  have "resolve_python_aws_handler ?engine ?r1 =
      Inr \<lparr>val = str_join ''.'' ([''project''] @ [''lambda'']) @ '':'' @ ''run'', file_name_used = True\<rparr>"
    using resolve_python_aws_handler_cases [OF p1, of ?engine] e1 g1 f1 s1 c1 n1 m1 by blast
  then have a: "resolve_python_aws_handler ?engine ?r1 =
      Inr \<lparr>val = ''project.lambda:run'', file_name_used = True\<rparr>"
    by simp
  have b: "resolve_python_aws_handler ?engine ?r2 =
      Inr \<lparr>val = ''project.lambda:run'', file_name_used = False\<rparr>"
    using resolve_python_aws_handler_cases [OF p2, of ?engine] e2
    by (simp add: example_handler_request_def)
  have c: "resolve_python_aws_handler ?engine ?r3 = Inl (EngineError ''no match'')"
    using resolve_python_aws_handler_cases [OF p3, of ?engine] e3 g3 by blast
  have d: "resolve_python_aws_handler ?engine2 ?r1 = Inl InvalidFieldException"
    using resolve_python_aws_handler_cases [OF p1, of ?engine2] e1 g4 by force
  from a b c d show ?thesis by blast
qed

end
